theory Spec2Isabelle
  imports Main "HOL-Library.Sublist" "HOL-Library.Monad_Syntax"
begin

section \<open>Strings and optional values of the source language\<close>

text \<open>
  A source string is a \<^typ>\<open>string\<close>; one \<^typ>\<open>char\<close> stands for one code unit, so the
  model covers the strings whose code units are below 256. The source treats every code unit
  outside \<open>A\<close> to \<open>Z\<close>, \<open>a\<close> to \<open>z\<close> and \<open>0\<close> to \<open>9\<close> alike.
  An optional string (\<^verbatim>\<open>field?: string\<close>) is a \<^typ>\<open>string option\<close>, where \<open>None\<close>
  stands for \<^verbatim>\<open>undefined\<close> (and \<^verbatim>\<open>null\<close>).
\<close>

text \<open>\<^verbatim>\<open>s.includes(sub)\<close>: \<open>sub\<close> occurs in \<open>s\<close> as a contiguous run.\<close>

fun str_includes :: "string \<Rightarrow> string \<Rightarrow> bool" where
  "str_includes [] sub = (sub = [])"
| "str_includes (c # cs) sub = (prefix sub (c # cs) \<or> str_includes cs sub)"

text \<open>Truthiness of an optional string: defined and not the empty string.\<close>

fun truthy :: "string option \<Rightarrow> bool" where
  "truthy None = False"
| "truthy (Some s) = (s \<noteq> [])"

text \<open>\<^verbatim>\<open>a || b\<close> on optional strings.\<close>

definition js_or :: "string option \<Rightarrow> string option \<Rightarrow> string option" where
  "js_or a b = (if truthy a then a else b)"


section \<open>Roles and routes\<close>

text \<open>
  The closed role enumeration of \<^verbatim>\<open>@/types/auth.types\<close>, as listed by
  \<^verbatim>\<open>createRoleEnum\<close>.
\<close>

datatype Role = SUPER_ADMIN | CLINIC_ADMIN | DOCTOR | RECEPTIONIST | PATIENT

text \<open>
  \<^verbatim>\<open>getDashboardByRole\<close> lives in \<^verbatim>\<open>@/config/routes\<close>; every function below that calls
  it takes it as the parameter \<open>getDashboardByRole\<close>. Its argument is what the caller passes
  at run time, a role or \<^verbatim>\<open>undefined\<close>.

  \<open>exampleDashboard\<close> is one such route table, used only to evaluate the functions at
  concrete inputs.
\<close>

fun exampleDashboard :: "Role option \<Rightarrow> string" where
  "exampleDashboard (Some SUPER_ADMIN) = ''/super-admin/dashboard''"
| "exampleDashboard (Some CLINIC_ADMIN) = ''/clinic-admin/dashboard''"
| "exampleDashboard (Some DOCTOR) = ''/doctor/dashboard''"
| "exampleDashboard (Some RECEPTIONIST) = ''/receptionist/dashboard''"
| "exampleDashboard (Some PATIENT) = ''/patient/dashboard''"
| "exampleDashboard None = ''/''"


section \<open>The redirect resolver\<close>

text \<open>
  \<^verbatim>\<open>
  function getRedirectPath(user: { role?: Role } | null | undefined, redirectUrl?: string) {
    if (redirectUrl && !redirectUrl.includes('/auth/')) { return redirectUrl; }
    if (user?.role) { return getDashboardByRole(user.role); }
    return '/auth/login';
  }
  \<close>
  The resolver reads only the role of the user, so the user argument is modelled by
  \<open>user?.role\<close>: \<open>None\<close> for a missing user and for a user without a role. A role is a
  non-empty string of the enumeration, so the test \<^verbatim>\<open>user?.role\<close> holds exactly when the
  user has a role.
\<close>

definition getRedirectPath ::
  "(Role option \<Rightarrow> string) \<Rightarrow> Role option \<Rightarrow> string option \<Rightarrow> string" where
  "getRedirectPath getDashboardByRole user_role redirectUrl =
     (if truthy redirectUrl \<and> \<not> str_includes (the redirectUrl) ''/auth/'' then the redirectUrl
      else case user_role of
             Some r \<Rightarrow> getDashboardByRole (Some r)
           | None \<Rightarrow> ''/auth/login'')"


section \<open>The client state: query cache, router, notifications\<close>

text \<open>
  A user as the remote actions return it. \<open>None\<close> in an optional field stands for an
  absent (\<^verbatim>\<open>undefined\<close> or \<^verbatim>\<open>null\<close>) value. The record is extensible, as the object
  spread \<^verbatim>\<open>{...result.user, ...}\<close> keeps every other field.
\<close>

record user =
  user_id :: string
  email :: string
  name :: "string option"
  role :: "Role option"
  firstName :: "string option"
  lastName :: "string option"
  phone :: "string option"
  dateOfBirth :: "string option"
  gender :: "string option"
  address :: "string option"

text \<open>\<^verbatim>\<open>AuthResponse\<close>: \<^verbatim>\<open>{ user?, token?, redirectUrl?, message? }\<close>.\<close>

record auth_response =
  user :: "user option"
  token :: "string option"
  redirectUrl :: "string option"
  message :: "string option"

text \<open>\<^verbatim>\<open>GoogleLoginResponse\<close>: the user is required.\<close>

record google_response =
  g_user :: user
  g_token :: "string option"
  g_redirectUrl :: "string option"

text \<open>
  What a rejected remote action throws: an instance of \<^verbatim>\<open>Error\<close> with its message; any
  other value that has properties, with what reading its \<^verbatim>\<open>message\<close> property gives
  (a string, or \<open>None\<close> for \<^verbatim>\<open>undefined\<close>); or \<^verbatim>\<open>undefined\<close> or \<^verbatim>\<open>null\<close>.
\<close>

datatype thrown = ErrorObj string | NonError "string option" | Nullish

text \<open>
  Reading \<^verbatim>\<open>error.message\<close>: on \<^verbatim>\<open>undefined\<close> and \<^verbatim>\<open>null\<close> the read throws a
  \<^verbatim>\<open>TypeError\<close> (\<open>Inl\<close>). A handler in which it throws stops there, before it has called
  \<^verbatim>\<open>toast.error\<close>; the mutation absorbs what its handler throws.
\<close>

fun error_message :: "thrown \<Rightarrow> unit + string option" where
  "error_message (ErrorObj m) = Inr (Some m)"
| "error_message (NonError v) = Inr v"
| "error_message Nullish = Inl ()"

text \<open>
  The query cache maps a query key to the query's data and its invalidation mark. The data
  under the key \<^verbatim>\<open>['session']\<close> is the session (or \<^verbatim>\<open>null\<close>); other keys hold data of
  other parts of the application.
\<close>

datatype cached = CachedNull | CachedSession auth_response | CachedOther string

record query =
  data :: cached
  isInvalidated :: bool

type_synonym query_key = "string list"

datatype toast = ToastSuccess "string option" | ToastError "string option"

record client =
  cache :: "query_key \<rightharpoonup> query"
  pushed :: "string list"
  toasts :: "toast list"

text \<open>\<^verbatim>\<open>queryClient.clear()\<close> removes every query.\<close>

definition clear :: "client \<Rightarrow> client" where
  "clear st = st\<lparr>cache := Map.empty\<rparr>"

text \<open>\<^verbatim>\<open>queryClient.setQueryData(key, value)\<close> stores the value as fresh data.\<close>

definition setQueryData :: "query_key \<Rightarrow> cached \<Rightarrow> client \<Rightarrow> client" where
  "setQueryData key v st =
     st\<lparr>cache := (cache st)(key \<mapsto> \<lparr>data = v, isInvalidated = False\<rparr>)\<rparr>"

text \<open>
  \<^verbatim>\<open>queryClient.invalidateQueries({ queryKey })\<close> marks every cached query whose key starts
  with \<open>queryKey\<close> as invalidated (so that it is fetched again); the data stay.
\<close>

definition invalidateQueries :: "query_key \<Rightarrow> client \<Rightarrow> client" where
  "invalidateQueries key st =
     st\<lparr>cache := (\<lambda>k. if prefix key k
                         then map_option (\<lambda>q. q\<lparr>isInvalidated := True\<rparr>) (cache st k)
                         else cache st k)\<rparr>"

text \<open>\<^verbatim>\<open>router.push(path)\<close>; the list holds the navigations, oldest first.\<close>

definition push :: "string \<Rightarrow> client \<Rightarrow> client" where
  "push p st = st\<lparr>pushed := pushed st @ [p]\<rparr>"

definition toast_success :: "string option \<Rightarrow> client \<Rightarrow> client" where
  "toast_success m st = st\<lparr>toasts := toasts st @ [ToastSuccess m]\<rparr>"

definition toast_error :: "string option \<Rightarrow> client \<Rightarrow> client" where
  "toast_error m st = st\<lparr>toasts := toasts st @ [ToastError m]\<rparr>"

text \<open>
  \<^verbatim>\<open>useMutation({ mutationFn, onSuccess, onError })\<close>: when the mutation function returns,
  \<open>onSuccess\<close> runs on its result; when it throws, \<open>onError\<close> runs on what it threw.
  The outcome of the mutation function is a sum, \<open>Inl\<close> what was thrown.
\<close>

definition useMutation ::
  "thrown + 'a \<Rightarrow> ('a \<Rightarrow> client \<Rightarrow> client) \<Rightarrow> (thrown \<Rightarrow> client \<Rightarrow> client) \<Rightarrow> client \<Rightarrow> client" where
  "useMutation outcome onSuccess onError st =
     (case outcome of Inr d \<Rightarrow> onSuccess d st | Inl e \<Rightarrow> onError e st)"


section \<open>The operations of \<^verbatim>\<open>useAuth\<close>\<close>

text \<open>
  Every operation takes the outcome of its remote action (\<open>Inl\<close> what the action threw,
  \<open>Inr\<close> what it returned) and the client state, and returns the client state after the
  handlers have run.
\<close>

subsection \<open>Login\<close>

definition login_mutationFn :: "thrown + auth_response \<Rightarrow> thrown + auth_response" where
  "login_mutationFn outcome =
     (case outcome of
        Inl e \<Rightarrow> Inl e
      | Inr result \<Rightarrow>
          (case user result of
             None \<Rightarrow> Inl (ErrorObj ''Invalid user data received'')
           | Some u \<Rightarrow>
               Inr (result\<lparr>user := Some (u\<lparr>
                 firstName := js_or (firstName u) (Some []),
                 lastName := js_or (lastName u) (Some []),
                 phone := js_or (phone u) (Some []),
                 dateOfBirth := js_or (dateOfBirth u) None,
                 gender := js_or (gender u) (Some []),
                 address := js_or (address u) (Some [])\<rparr>)\<rparr>)))"

definition login_onError :: "thrown \<Rightarrow> client \<Rightarrow> client" where
  "login_onError e st =
     (case error_message e of
        Inl _ \<Rightarrow> st
      | Inr m \<Rightarrow> toast_error (js_or m (Some ''Login failed'')) st)"

text \<open>
  \<open>onSuccess\<close> reads \<^verbatim>\<open>data.user.role\<close> after the cache write; on data without a user
  (which the mutation function never returns) that read throws, and the mutation runs
  \<open>onError\<close>.
\<close>

definition login_onSuccess ::
  "(Role option \<Rightarrow> string) \<Rightarrow> auth_response \<Rightarrow> client \<Rightarrow> client" where
  "login_onSuccess getDashboardByRole d st =
     (let st1 = setQueryData [''session''] (CachedSession d) st in
      case user d of
        None \<Rightarrow> login_onError (ErrorObj ''Cannot read properties of undefined'') st1
      | Some u \<Rightarrow>
          toast_success
            (Some (''Welcome back''
                   @ (if truthy (firstName u) then '', '' @ the (firstName u) else [])
                   @ ''!''))
            (push (getDashboardByRole (role u)) st1))"

definition login ::
  "(Role option \<Rightarrow> string) \<Rightarrow> thrown + auth_response \<Rightarrow> client \<Rightarrow> client" where
  "login getDashboardByRole outcome st =
     useMutation (login_mutationFn outcome) (login_onSuccess getDashboardByRole) login_onError st"

subsection \<open>Logout\<close>

definition logout_mutationFn :: "thrown + unit \<Rightarrow> thrown + unit" where
  "logout_mutationFn outcome =
     (case outcome of
        Inr _ \<Rightarrow> Inr ()
      | Inl e \<Rightarrow>
          (case e of
             ErrorObj m \<Rightarrow>
               if str_includes m ''401'' \<or> str_includes m ''Session'' \<or> str_includes m ''session''
               then Inr () else Inl e
           | _ \<Rightarrow> Inl e))"

definition logout_onSuccess :: "unit \<Rightarrow> client \<Rightarrow> client" where
  "logout_onSuccess d st =
     toast_success (Some ''Logged out successfully'')
       (push ''/auth/login'' (setQueryData [''session''] CachedNull (clear st)))"

definition logout_onError :: "thrown \<Rightarrow> client \<Rightarrow> client" where
  "logout_onError e st =
     toast_error (Some ''Logged out locally, but server logout failed'')
       (push ''/auth/login'' (setQueryData [''session''] CachedNull (clear st)))"

definition logout :: "thrown + unit \<Rightarrow> client \<Rightarrow> client" where
  "logout outcome st = useMutation (logout_mutationFn outcome) logout_onSuccess logout_onError st"

subsection \<open>Requests that only notify\<close>

text \<open>\<open>requestOTP\<close> resolves to \<^verbatim>\<open>{ success: boolean; message: string }\<close>.\<close>

record otp_response =
  success :: bool
  otp_message :: string

definition requestOTP :: "thrown + otp_response \<Rightarrow> client \<Rightarrow> client" where
  "requestOTP outcome st =
     useMutation outcome
       (\<lambda>d st. invalidateQueries [''session''] (toast_success (Some (otp_message d)) st))
       (\<lambda>e st. case error_message e of
                  Inl _ \<Rightarrow> st
                | Inr m \<Rightarrow> toast_error m st) st"

definition forgotPassword :: "thrown + auth_response \<Rightarrow> client \<Rightarrow> client" where
  "forgotPassword outcome st =
     useMutation outcome
       (\<lambda>d st. toast_success
                  (js_or (message d) (Some ''Password reset instructions sent to your email'')) st)
       (\<lambda>e st. toast_error
                  (case e of ErrorObj m \<Rightarrow> Some m
                   | _ \<Rightarrow> Some ''Failed to request password reset'') st) st"

definition requestMagicLink :: "thrown + auth_response \<Rightarrow> client \<Rightarrow> client" where
  "requestMagicLink outcome st =
     useMutation outcome
       (\<lambda>d st. toast_success (js_or (message d) (Some ''Magic link sent to your email'')) st)
       (\<lambda>e st. toast_error
                  (case e of ErrorObj m \<Rightarrow> Some m
                   | _ \<Rightarrow> Some ''Failed to send magic link'') st) st"

subsection \<open>Sign-in flows that resolve a redirect\<close>

text \<open>\<^verbatim>\<open>data.user?.role\<close> of an \<^verbatim>\<open>AuthResponse\<close>.\<close>

definition user_role :: "auth_response \<Rightarrow> Role option" where
  "user_role d = (case user d of None \<Rightarrow> None | Some u \<Rightarrow> role u)"

definition googleLogin ::
  "(Role option \<Rightarrow> string) \<Rightarrow> thrown + google_response \<Rightarrow> client \<Rightarrow> client" where
  "googleLogin getDashboardByRole outcome st =
     useMutation outcome
       (\<lambda>d st. toast_success
                  (Some (''Welcome''
                         @ (if truthy (name (g_user d)) then '', '' @ the (name (g_user d)) else [])
                         @ ''!''))
                  (push (getRedirectPath getDashboardByRole (role (g_user d)) (g_redirectUrl d))
                     (invalidateQueries [''session''] st)))
       (\<lambda>e st. toast_error
                  (case e of ErrorObj m \<Rightarrow> Some m
                   | _ \<Rightarrow> Some ''Google login failed'') st)
       st"

definition verifyOTP ::
  "(Role option \<Rightarrow> string) \<Rightarrow> thrown + auth_response \<Rightarrow> client \<Rightarrow> client" where
  "verifyOTP getDashboardByRole outcome st =
     useMutation outcome
       (\<lambda>d st. toast_success (Some ''OTP verified successfully! Welcome back!'')
                  (push (getRedirectPath getDashboardByRole (user_role d) (redirectUrl d))
                     (invalidateQueries [''session''] st)))
       (\<lambda>e st. toast_error
                  (case e of ErrorObj m \<Rightarrow> Some m
                   | _ \<Rightarrow> Some ''Invalid or expired OTP'') st)
       st"

definition socialLogin ::
  "(Role option \<Rightarrow> string) \<Rightarrow> thrown + auth_response \<Rightarrow> client \<Rightarrow> client" where
  "socialLogin getDashboardByRole outcome st =
     useMutation outcome
       (\<lambda>d st. toast_success (Some ''Logged in successfully'')
                  (push (getRedirectPath getDashboardByRole (user_role d) (redirectUrl d))
                     (invalidateQueries [''session''] st)))
       (\<lambda>e st. toast_error
                  (case e of ErrorObj m \<Rightarrow> Some m
                   | _ \<Rightarrow> Some ''Social login failed'') st)
       st"

definition verifyMagicLink ::
  "(Role option \<Rightarrow> string) \<Rightarrow> thrown + auth_response \<Rightarrow> client \<Rightarrow> client" where
  "verifyMagicLink getDashboardByRole outcome st =
     useMutation outcome
       (\<lambda>d st. toast_success (Some ''Logged in successfully'')
                  (push (getRedirectPath getDashboardByRole (user_role d) (redirectUrl d))
                     (invalidateQueries [''session''] st)))
       (\<lambda>e st. toast_error
                  (case e of ErrorObj m \<Rightarrow> Some m
                   | _ \<Rightarrow> Some ''Magic link verification failed'') st)
       st"

definition facebookLogin ::
  "(Role option \<Rightarrow> string) \<Rightarrow> thrown + auth_response \<Rightarrow> client \<Rightarrow> client" where
  "facebookLogin getDashboardByRole outcome st =
     useMutation outcome
       (\<lambda>d st. toast_success (Some ''Logged in with Facebook successfully'')
                  (push (getRedirectPath getDashboardByRole (user_role d) (redirectUrl d))
                     (invalidateQueries [''session''] st)))
       (\<lambda>e st. case error_message e of
                  Inl _ \<Rightarrow> st
                | Inr m \<Rightarrow> toast_error m st)
       st"

subsection \<open>Registration\<close>

definition register :: "thrown + 'a \<Rightarrow> client \<Rightarrow> client" where
  "register outcome st =
     useMutation outcome
       (\<lambda>d st. push ''/auth/login''
                  (toast_success
                     (Some ''Registration successful. Please check your email to verify your account.'')
                     st))
       (\<lambda>e st. case error_message e of
                  Inl _ \<Rightarrow> st
                | Inr m \<Rightarrow> toast_error (js_or m (Some ''Registration failed'')) st)
       st"

definition registerWithClinic ::
  "(Role option \<Rightarrow> string) \<Rightarrow> thrown + auth_response \<Rightarrow> client \<Rightarrow> client" where
  "registerWithClinic getDashboardByRole outcome st =
     useMutation outcome
       (\<lambda>d st. toast_success (Some ''Registration successful'')
                  (push (case user_role d of
                           Some r \<Rightarrow> getDashboardByRole (Some r)
                         | None \<Rightarrow>
                             if truthy (redirectUrl d) then the (redirectUrl d)
                             else ''/auth/login?registered=true'')
                     (invalidateQueries [''session''] st)))
       (\<lambda>e st. toast_error
                  (case e of ErrorObj m \<Rightarrow> Some m
                   | _ \<Rightarrow> Some ''Registration failed'') st)
       st"

subsection \<open>Passwords, sessions, one-time passwords, e-mail\<close>

definition resetPassword :: "thrown + auth_response \<Rightarrow> client \<Rightarrow> client" where
  "resetPassword outcome st =
     useMutation outcome
       (\<lambda>d st. toast_success (js_or (message d) (Some ''Password reset successful''))
                  (push ''/auth/login?reset=true'' st))
       (\<lambda>e st. toast_error
                  (case e of ErrorObj m \<Rightarrow> Some m
                   | _ \<Rightarrow> Some ''Password reset failed'') st)
       st"

definition changePassword :: "thrown + auth_response \<Rightarrow> client \<Rightarrow> client" where
  "changePassword outcome st =
     useMutation outcome
       (\<lambda>d st. toast_success (Some ''Password changed successfully'')
                  (invalidateQueries [''session''] st))
       (\<lambda>e st. case error_message e of
                  Inl _ \<Rightarrow> st
                | Inr m \<Rightarrow> toast_error m st)
       st"

definition terminateAllSessions :: "thrown + 'a \<Rightarrow> client \<Rightarrow> client" where
  "terminateAllSessions outcome st =
     useMutation outcome
       (\<lambda>d st. toast_success (Some ''All sessions terminated successfully'')
                  (push ''/auth/login'' (setQueryData [''session''] CachedNull (clear st))))
       (\<lambda>e st. case error_message e of
                  Inl _ \<Rightarrow> st
                | Inr m \<Rightarrow> toast_error (js_or m (Some ''Failed to terminate all sessions'')) st)
       st"

text \<open>\<open>checkOTPStatus\<close> resolves to \<^verbatim>\<open>{ hasActiveOTP: boolean }\<close> and has no \<open>onSuccess\<close>.\<close>

definition checkOTPStatus :: "thrown + bool \<Rightarrow> client \<Rightarrow> client" where
  "checkOTPStatus outcome st =
     useMutation outcome (\<lambda>d st. st) (\<lambda>e st. case error_message e of
                  Inl _ \<Rightarrow> st
                | Inr m \<Rightarrow> toast_error m st) st"

text \<open>\<open>invalidateOTP\<close> and \<open>verifyEmail\<close> resolve to \<^verbatim>\<open>{ message: string }\<close>.\<close>

definition invalidateOTP :: "thrown + string \<Rightarrow> client \<Rightarrow> client" where
  "invalidateOTP outcome st =
     useMutation outcome
       (\<lambda>d st. toast_success (Some d) st)
       (\<lambda>e st. case error_message e of
                  Inl _ \<Rightarrow> st
                | Inr m \<Rightarrow> toast_error m st)
       st"

definition verifyEmail :: "thrown + string \<Rightarrow> client \<Rightarrow> client" where
  "verifyEmail outcome st =
     useMutation outcome
       (\<lambda>d st. push ''/auth/login'' (toast_success (Some d) (invalidateQueries [''session''] st)))
       (\<lambda>e st. case error_message e of
                  Inl _ \<Rightarrow> st
                | Inr m \<Rightarrow> toast_error m st)
       st"

subsection \<open>The session query\<close>

text \<open>
  \<^verbatim>\<open>useQuery({ queryKey: ['session'], queryFn })\<close> with \<^verbatim>\<open>getServerSession\<close>: when the
  query function returns, its result (a session, or \<^verbatim>\<open>null\<close>) becomes the fresh data of the
  query. When it throws, nothing handles the error: no notification is shown, and the data
  and the invalidation mark of the query stay as they are. The query records the error in
  its own status, which is not part of the client state modelled here.
\<close>

definition getSession :: "thrown + auth_response option \<Rightarrow> client \<Rightarrow> client" where
  "getSession outcome st =
     (case outcome of
        Inr result \<Rightarrow>
          setQueryData [''session'']
            (case result of None \<Rightarrow> CachedNull | Some s \<Rightarrow> CachedSession s) st
      | Inl e \<Rightarrow> st)"

subsection \<open>The operations that call a remote action, and their failure\<close>

text \<open>
  The session query and the eighteen mutations that call a remote action. \<open>appleLogin\<close>
  is left out: its mutation function is \<^verbatim>\<open>Promise.resolve()\<close>, it calls no remote action
  and has no handlers.
\<close>

datatype operation =
    GetSession
  | Login | GoogleLogin | Register | Logout | RegisterWithClinic | VerifyOTP | RequestOTP
  | ForgotPassword | ResetPassword | SocialLogin | RequestMagicLink | VerifyMagicLink
  | ChangePassword | TerminateAllSessions | CheckOTPStatus | InvalidateOTP | VerifyEmail
  | FacebookLogin

text \<open>The client state after the remote action of an operation has thrown \<open>e\<close>.\<close>

fun failed :: "(Role option \<Rightarrow> string) \<Rightarrow> operation \<Rightarrow> thrown \<Rightarrow> client \<Rightarrow> client" where
  "failed g GetSession e st = getSession (Inl e) st"
| "failed g Login e st = login g (Inl e) st"
| "failed g GoogleLogin e st = googleLogin g (Inl e) st"
| "failed g Register e st = register (Inl e :: thrown + unit) st"
| "failed g Logout e st = logout (Inl e) st"
| "failed g RegisterWithClinic e st = registerWithClinic g (Inl e) st"
| "failed g VerifyOTP e st = verifyOTP g (Inl e) st"
| "failed g RequestOTP e st = requestOTP (Inl e) st"
| "failed g ForgotPassword e st = forgotPassword (Inl e) st"
| "failed g ResetPassword e st = resetPassword (Inl e) st"
| "failed g SocialLogin e st = socialLogin g (Inl e) st"
| "failed g RequestMagicLink e st = requestMagicLink (Inl e) st"
| "failed g VerifyMagicLink e st = verifyMagicLink g (Inl e) st"
| "failed g ChangePassword e st = changePassword (Inl e) st"
| "failed g TerminateAllSessions e st = terminateAllSessions (Inl e :: thrown + unit) st"
| "failed g CheckOTPStatus e st = checkOTPStatus (Inl e) st"
| "failed g InvalidateOTP e st = invalidateOTP (Inl e) st"
| "failed g VerifyEmail e st = verifyEmail (Inl e) st"
| "failed g FacebookLogin e st = facebookLogin g (Inl e) st"

text \<open>A client state used to evaluate the operations at concrete inputs.\<close>

definition exampleUser :: user where
  "exampleUser =
     \<lparr>user_id = ''u1'', email = ''a@b.com'', name = None, role = Some DOCTOR,
      firstName = Some ''Jo'', lastName = None, phone = None, dateOfBirth = None,
      gender = None, address = None\<rparr>"

definition exampleResponse :: auth_response where
  "exampleResponse = \<lparr>user = Some exampleUser, token = None, redirectUrl = None, message = None\<rparr>"

definition exampleClient :: client where
  "exampleClient =
     \<lparr>cache = [ [''session''] \<mapsto> \<lparr>data = CachedSession exampleResponse, isInvalidated = False\<rparr>,
               [''appointments''] \<mapsto> \<lparr>data = CachedOther ''[]'', isInvalidated = False\<rparr>],
      pushed = [], toasts = []\<rparr>"

section \<open>The validation schemas\<close>

subsection \<open>The schema library\<close>

text \<open>
  A raw input value. \<open>JNum n\<close> is a finite number; the schemas only test whether a
  value is a number, so the integers stand for all of them. \<open>JNaN\<close> is \<^verbatim>\<open>NaN\<close>, a number
  to \<^verbatim>\<open>typeof\<close> that \<^verbatim>\<open>z.number()\<close> does not take for one. \<open>JOther\<close> is any value of
  another type (an object, an array, a function). The infinite numbers are left out: the
  versions of the library differ on them.
\<close>

datatype jsval = JUndefined | JNull | JBool bool | JNum int | JNaN | JStr string | JOther

text \<open>
  An issue is the path of the offending field and a message: the message the schema gives, or
  the library's own text for a value of the wrong type or outside an enumeration.
\<close>

datatype issue_message = Message string | LibraryDefault

type_synonym issue = "string list \<times> issue_message"

text \<open>
  The result of parsing a value: the parsed value, or \<open>None\<close> when parsing aborted
  (the library's \<^verbatim>\<open>INVALID\<close>: wrong type, value outside an enumeration), and the issues
  raised. A failed check of a string, or a failed refinement, raises an issue and does not
  abort.
\<close>

type_synonym 'a parse = "'a option \<times> issue list"

text \<open>
  \<^verbatim>\<open>z.string()\<close> with its chain of checks, each a test and its message: every failing check
  raises its issue, in the order of the chain.
\<close>

type_synonym string_check = "(string \<Rightarrow> bool) \<times> string"

definition zString :: "string_check list \<Rightarrow> string list \<Rightarrow> jsval \<Rightarrow> string parse" where
  "zString checks path v =
     (case v of
        JStr s \<Rightarrow> (Some s, map (\<lambda>c. (path, Message (snd c))) (filter (\<lambda>c. \<not> fst c s) checks))
      | _ \<Rightarrow> (None, [(path, LibraryDefault)]))"

text \<open>\<^verbatim>\<open>.min(n, message)\<close> and \<^verbatim>\<open>.length(n, message)\<close>.\<close>

definition min_check :: "nat \<Rightarrow> string \<Rightarrow> string_check" where
  "min_check n m = (\<lambda>s. n \<le> length s, m)"

definition length_check :: "nat \<Rightarrow> string \<Rightarrow> string_check" where
  "length_check n m = (\<lambda>s. length s = n, m)"

text \<open>
  \<^verbatim>\<open>.regex(re, message)\<close> for the four regular expressions of the schemas, each a single
  character class: the string matches when one of its characters is in the class.
\<close>

definition in_range :: "char \<Rightarrow> char \<Rightarrow> char \<Rightarrow> bool" where
  "in_range lo hi c \<longleftrightarrow> (of_char lo :: nat) \<le> of_char c \<and> (of_char c :: nat) \<le> of_char hi"

text \<open>\<^verbatim>\<open>/[A-Z]/\<close>\<close>
definition re_upper :: "string \<Rightarrow> bool" where
  "re_upper s = list_ex (in_range CHR ''A'' CHR ''Z'') s"

text \<open>\<^verbatim>\<open>/[a-z]/\<close>\<close>
definition re_lower :: "string \<Rightarrow> bool" where
  "re_lower s = list_ex (in_range CHR ''a'' CHR ''z'') s"

text \<open>\<^verbatim>\<open>/[0-9]/\<close>\<close>
definition re_digit :: "string \<Rightarrow> bool" where
  "re_digit s = list_ex (in_range CHR ''0'' CHR ''9'') s"

text \<open>\<^verbatim>\<open>/[^A-Za-z0-9]/\<close>\<close>
definition re_special :: "string \<Rightarrow> bool" where
  "re_special s =
     list_ex (\<lambda>c. \<not> (in_range CHR ''A'' CHR ''Z'' c \<or> in_range CHR ''a'' CHR ''z'' c
                     \<or> in_range CHR ''0'' CHR ''9'' c)) s"

text \<open>\<^verbatim>\<open>z.boolean()\<close>, \<^verbatim>\<open>z.number()\<close>, \<^verbatim>\<open>z.enum([...])\<close>.\<close>

definition zBoolean :: "string list \<Rightarrow> jsval \<Rightarrow> bool parse" where
  "zBoolean path v =
     (case v of JBool b \<Rightarrow> (Some b, []) | _ \<Rightarrow> (None, [(path, LibraryDefault)]))"

definition zNumber :: "string list \<Rightarrow> jsval \<Rightarrow> int parse" where
  "zNumber path v =
     (case v of JNum n \<Rightarrow> (Some n, []) | _ \<Rightarrow> (None, [(path, LibraryDefault)]))"

definition zEnum :: "string list \<Rightarrow> string list \<Rightarrow> jsval \<Rightarrow> string parse" where
  "zEnum values path v =
     (case v of
        JStr s \<Rightarrow> if s \<in> set values then (Some s, []) else (None, [(path, LibraryDefault)])
      | _ \<Rightarrow> (None, [(path, LibraryDefault)]))"

text \<open>\<^verbatim>\<open>schema.default(d)\<close>: an \<^verbatim>\<open>undefined\<close> input is replaced by \<open>d\<close> before parsing.\<close>

definition zDefault :: "jsval \<Rightarrow> (jsval \<Rightarrow> 'a parse) \<Rightarrow> jsval \<Rightarrow> 'a parse" where
  "zDefault d schema v = schema (if v = JUndefined then d else v)"

text \<open>
  \<^verbatim>\<open>schema.refine(check, { message, path })\<close>: when the inner schema aborted, the check does
  not run; otherwise a failing check raises its issue at the given path, after the issues of
  the inner schema.
\<close>

definition zRefine :: "('a \<Rightarrow> bool) \<Rightarrow> string \<Rightarrow> string list \<Rightarrow> 'a parse \<Rightarrow> 'a parse" where
  "zRefine check m path r =
     (case fst r of
        None \<Rightarrow> r
      | Some x \<Rightarrow> if check x then r else (Some x, snd r @ [(path, Message m)]))"

text \<open>
  \<^verbatim>\<open>schema.safeParse(input)\<close>: the parsed data when no issue was raised, the issues
  otherwise.
\<close>

definition safeParse :: "'a parse \<Rightarrow> issue list + 'a" where
  "safeParse r =
     (case fst r of
        None \<Rightarrow> Inl (snd r)
      | Some x \<Rightarrow> if snd r = [] then Inr x else Inl (snd r))"

subsection \<open>\<^verbatim>\<open>registerSchema\<close>\<close>

text \<open>
  The e-mail grammar of the library is the parameter \<open>isEmail\<close>; the string values of
  the \<^verbatim>\<open>Role\<close> enumeration (\<^verbatim>\<open>@/types/auth.types\<close>) are the parameter \<open>roleValue\<close>.
  A key missing from the input reads as \<open>JUndefined\<close>.
\<close>

record register_input =
  in_email :: jsval
  in_password :: jsval
  in_confirmPassword :: jsval
  in_firstName :: jsval
  in_lastName :: jsval
  in_phone :: jsval
  in_gender :: jsval
  in_role :: jsval
  in_age :: jsval
  in_terms :: jsval

record register_data =
  out_email :: string
  out_password :: string
  out_confirmPassword :: string
  out_firstName :: string
  out_lastName :: string
  out_phone :: string
  out_gender :: string
  out_role :: string
  out_age :: int
  out_terms :: bool

definition createRoleEnum :: "(Role \<Rightarrow> string) \<Rightarrow> string list \<Rightarrow> jsval \<Rightarrow> string parse" where
  "createRoleEnum roleValue =
     zEnum [roleValue SUPER_ADMIN, roleValue CLINIC_ADMIN, roleValue DOCTOR,
            roleValue RECEPTIONIST, roleValue PATIENT]"

definition registerSchema_password :: "jsval \<Rightarrow> string parse" where
  "registerSchema_password =
     zString
       [min_check 8 ''Password must be at least 8 characters'',
        (re_upper, ''Password must contain at least one uppercase letter''),
        (re_lower, ''Password must contain at least one lowercase letter''),
        (re_digit, ''Password must contain at least one number''),
        (re_special, ''Password must contain at least one special character'')]
       [''password'']"

definition registerSchema_object ::
  "(string \<Rightarrow> bool) \<Rightarrow> (Role \<Rightarrow> string) \<Rightarrow> register_input \<Rightarrow> register_data parse" where
  "registerSchema_object isEmail roleValue inp =
     (let email = zString [(isEmail, ''Please enter a valid email address'')] [''email'']
                    (in_email inp);
          password = registerSchema_password (in_password inp);
          confirmPassword = zString [] [''confirmPassword''] (in_confirmPassword inp);
          firstName = zString [min_check 2 ''First name must be at least 2 characters'']
                        [''firstName''] (in_firstName inp);
          lastName = zString [min_check 2 ''Last name must be at least 2 characters'']
                       [''lastName''] (in_lastName inp);
          phone = zString [min_check 10 ''Phone number must be at least 10 characters'']
                    [''phone''] (in_phone inp);
          gender = zDefault (JStr ''MALE'') (zEnum [''MALE'', ''FEMALE'', ''OTHER''] [''gender''])
                     (in_gender inp);
          role = zDefault (JStr (roleValue PATIENT)) (createRoleEnum roleValue [''role''])
                   (in_role inp);
          age = zDefault (JNum 18) (zNumber [''age'']) (in_age inp);
          terms = zRefine (\<lambda>val. val = True) ''You must accept the terms and conditions''
                    [''terms''] (zBoolean [''terms''] (in_terms inp))
      in (do {
            e \<leftarrow> fst email; p \<leftarrow> fst password; c \<leftarrow> fst confirmPassword;
            f \<leftarrow> fst firstName; l \<leftarrow> fst lastName; ph \<leftarrow> fst phone;
            g \<leftarrow> fst gender; r \<leftarrow> fst role; a \<leftarrow> fst age; t \<leftarrow> fst terms;
            Some \<lparr>out_email = e, out_password = p, out_confirmPassword = c, out_firstName = f,
                  out_lastName = l, out_phone = ph, out_gender = g, out_role = r, out_age = a,
                  out_terms = t\<rparr>
          },
          snd email @ snd password @ snd confirmPassword @ snd firstName @ snd lastName
            @ snd phone @ snd gender @ snd role @ snd age @ snd terms))"

definition registerSchema ::
  "(string \<Rightarrow> bool) \<Rightarrow> (Role \<Rightarrow> string) \<Rightarrow> register_input \<Rightarrow> register_data parse" where
  "registerSchema isEmail roleValue inp =
     zRefine (\<lambda>d. out_password d = out_confirmPassword d) ''Passwords don't match''
       [''confirmPassword''] (registerSchema_object isEmail roleValue inp)"

subsection \<open>\<^verbatim>\<open>resetPasswordSchema\<close>\<close>

record reset_input =
  rin_password :: jsval
  rin_confirmPassword :: jsval
  rin_token :: jsval

record reset_data =
  rout_password :: string
  rout_confirmPassword :: string
  rout_token :: string

definition resetPasswordSchema_object :: "reset_input \<Rightarrow> reset_data parse" where
  "resetPasswordSchema_object inp =
     (let password = zString [min_check 8 ''Password must be at least 8 characters'']
                       [''password''] (rin_password inp);
          confirmPassword = zString [] [''confirmPassword''] (rin_confirmPassword inp);
          token = zString [] [''token''] (rin_token inp)
      in (do {
            p \<leftarrow> fst password; c \<leftarrow> fst confirmPassword; t \<leftarrow> fst token;
            Some \<lparr>rout_password = p, rout_confirmPassword = c, rout_token = t\<rparr>
          },
          snd password @ snd confirmPassword @ snd token))"

definition resetPasswordSchema :: "reset_input \<Rightarrow> reset_data parse" where
  "resetPasswordSchema inp =
     zRefine (\<lambda>d. rout_password d = rout_confirmPassword d) ''Passwords don't match''
       [''confirmPassword''] (resetPasswordSchema_object inp)"

subsection \<open>\<^verbatim>\<open>changePasswordSchema\<close>\<close>

record change_input =
  cin_currentPassword :: jsval
  cin_newPassword :: jsval
  cin_confirmPassword :: jsval

record change_data =
  cout_currentPassword :: string
  cout_newPassword :: string
  cout_confirmPassword :: string

definition changePasswordSchema_newPassword :: "jsval \<Rightarrow> string parse" where
  "changePasswordSchema_newPassword =
     zString
       [min_check 8 ''Password must be at least 8 characters'',
        (re_upper, ''Password must contain at least one uppercase letter''),
        (re_lower, ''Password must contain at least one lowercase letter''),
        (re_digit, ''Password must contain at least one number''),
        (re_special, ''Password must contain at least one special character'')]
       [''newPassword'']"

definition changePasswordSchema_object :: "change_input \<Rightarrow> change_data parse" where
  "changePasswordSchema_object inp =
     (let currentPassword = zString [min_check 1 ''Current password is required'']
                              [''currentPassword''] (cin_currentPassword inp);
          newPassword = changePasswordSchema_newPassword (cin_newPassword inp);
          confirmPassword = zString [] [''confirmPassword''] (cin_confirmPassword inp)
      in (do {
            cu \<leftarrow> fst currentPassword; n \<leftarrow> fst newPassword; c \<leftarrow> fst confirmPassword;
            Some \<lparr>cout_currentPassword = cu, cout_newPassword = n, cout_confirmPassword = c\<rparr>
          },
          snd currentPassword @ snd newPassword @ snd confirmPassword))"

definition changePasswordSchema :: "change_input \<Rightarrow> change_data parse" where
  "changePasswordSchema inp =
     zRefine (\<lambda>d. cout_newPassword d = cout_confirmPassword d) ''Passwords don't match''
       [''confirmPassword''] (changePasswordSchema_object inp)"

subsection \<open>Inputs used to evaluate the schemas\<close>

text \<open>
  A stand-in for the e-mail grammar of the library and for the string values of the
  \<^verbatim>\<open>Role\<close> enumeration, and a registration form that \<^verbatim>\<open>registerSchema\<close> accepts. They are
  used only to evaluate the schemas at concrete inputs.
\<close>

definition exampleIsEmail :: "string \<Rightarrow> bool" where
  "exampleIsEmail s = str_includes s ''@''"

fun exampleRoleValue :: "Role \<Rightarrow> string" where
  "exampleRoleValue SUPER_ADMIN = ''SUPER_ADMIN''"
| "exampleRoleValue CLINIC_ADMIN = ''CLINIC_ADMIN''"
| "exampleRoleValue DOCTOR = ''DOCTOR''"
| "exampleRoleValue RECEPTIONIST = ''RECEPTIONIST''"
| "exampleRoleValue PATIENT = ''PATIENT''"

definition exampleRegistration :: register_input where
  "exampleRegistration =
     \<lparr>in_email = JStr ''a@b.com'', in_password = JStr ''Abcdef1!'',
      in_confirmPassword = JStr ''Abcdef1!'', in_firstName = JStr ''Jo'',
      in_lastName = JStr ''Doe'', in_phone = JStr ''0123456789'', in_gender = JUndefined,
      in_role = JUndefined, in_age = JUndefined, in_terms = JBool True\<rparr>"

definition exampleReset :: reset_input where
  "exampleReset =
     \<lparr>rin_password = JStr ''Abcdef1!'', rin_confirmPassword = JStr ''Abcdef1!'',
      rin_token = JStr ''t0k3n''\<rparr>"

definition exampleChange :: change_input where
  "exampleChange =
     \<lparr>cin_currentPassword = JStr ''old'', cin_newPassword = JStr ''Abcdef1!'',
      cin_confirmPassword = JStr ''Abcdef1!''\<rparr>"


section \<open>Properties of the string operations\<close>

lemma str_includes_iff: "str_includes s sub \<longleftrightarrow> (\<exists>pre post. s = pre @ sub @ post)"
proof (induction s)
  case Nil
  then show ?case by auto
next
  case (Cons c cs)
  show ?case
  proof
    assume "str_includes (c # cs) sub"
    then consider "prefix sub (c # cs)" | "str_includes cs sub" by auto
    then show "\<exists>pre post. c # cs = pre @ sub @ post"
    proof cases
      case 1
      then obtain post where "c # cs = sub @ post" by (auto simp: prefix_def)
      then have "c # cs = [] @ sub @ post" by simp
      then show ?thesis by blast
    next
      case 2
      with Cons.IH obtain pre post where "cs = pre @ sub @ post" by blast
      then have "c # cs = (c # pre) @ sub @ post" by simp
      then show ?thesis by blast
    qed
  next
    assume "\<exists>pre post. c # cs = pre @ sub @ post"
    then obtain pre post where eq: "c # cs = pre @ sub @ post" by blast
    show "str_includes (c # cs) sub"
    proof (cases pre)
      case Nil
      with eq have "prefix sub (c # cs)" by (simp add: prefix_def)
      then show ?thesis by simp
    next
      case (Cons p ps)
      with eq have "cs = ps @ sub @ post" by simp
      with Cons.IH have "str_includes cs sub" by blast
      then show ?thesis by simp
    qed
  qed
qed

lemmas client_ops = clear_def setQueryData_def invalidateQueries_def push_def
  toast_success_def toast_error_def useMutation_def


section \<open>Properties of the redirect resolver\<close>

text \<open>
  Claim C2, as amended. The resolver returns the explicit redirect unchanged when it is
  provided, is not the empty string and does not contain \<^verbatim>\<open>/auth/\<close>; otherwise, when the
  user has a role, it returns what \<open>getDashboardByRole\<close> gives for that role; otherwise it
  returns \<^verbatim>\<open>/auth/login\<close>. In particular \<open>resolve(null, "/dashboard/x")\<close> is
  \<^verbatim>\<open>/dashboard/x\<close>, \<open>resolve(user, "/auth/callback")\<close> falls through to the role and login
  branches, \<open>resolve({role: DOCTOR}, undefined)\<close> is the doctor dashboard path and
  \<open>resolve({}, undefined)\<close> is the login path.
\<close>

theorem getRedirectPath_branches:
  "(r = Some p \<and> p \<noteq> [] \<and> \<not> str_includes p ''/auth/'' \<longrightarrow> getRedirectPath g u r = p) \<and>
   (\<not> (\<exists>q. r = Some q \<and> q \<noteq> [] \<and> \<not> str_includes q ''/auth/'') \<and> u = Some x
      \<longrightarrow> getRedirectPath g u r = g (Some x)) \<and>
   (\<not> (\<exists>q. r = Some q \<and> q \<noteq> [] \<and> \<not> str_includes q ''/auth/'') \<and> u = None
      \<longrightarrow> getRedirectPath g u r = ''/auth/login'') \<and>
   getRedirectPath g None (Some ''/dashboard/x'') = ''/dashboard/x'' \<and>
   getRedirectPath g u (Some ''/auth/callback'') = getRedirectPath g u None \<and>
   getRedirectPath g (Some DOCTOR) None = g (Some DOCTOR) \<and>
   getRedirectPath g None None = ''/auth/login''"
  by (cases r) (auto simp: getRedirectPath_def)

theorem getRedirectPath_branches_witness:
  "getRedirectPath exampleDashboard (Some PATIENT) (Some ''/appointments'') = ''/appointments'' \<and>
   getRedirectPath exampleDashboard (Some PATIENT) (Some ''/auth/verify'') = ''/patient/dashboard'' \<and>
   getRedirectPath exampleDashboard None (Some []) = ''/auth/login''"
  using getRedirectPath_branches [of "Some ''/appointments''" "''/appointments''" exampleDashboard "Some PATIENT" PATIENT]
    getRedirectPath_branches [of "Some ''/auth/verify''" "[]" exampleDashboard "Some PATIENT" PATIENT]
    getRedirectPath_branches [of "Some []" "[]" exampleDashboard None PATIENT]
  by simp

text \<open>
  Claim C2 as stated fails for the empty string: it is a provided redirect that does not
  contain \<^verbatim>\<open>/auth/\<close>, and the resolver does not return it, because the guard
  \<^verbatim>\<open>redirectUrl && ...\<close> takes the empty string for a missing one.
\<close>

theorem getRedirectPath_empty_redirect_counterexample:
  "\<not> str_includes [] ''/auth/'' \<and> getRedirectPath exampleDashboard None (Some []) \<noteq> []"
  by (simp add: getRedirectPath_def)

text \<open>
  Claim C10. An explicit redirect in which \<^verbatim>\<open>/auth/\<close> occurs anywhere, such as
  \<^verbatim>\<open>/dashboard/auth/x\<close>, is ignored: the resolver gives the role's dashboard path, or the
  login path when there is no role.
\<close>

theorem getRedirectPath_auth_substring:
  "\<exists>pre post. p = pre @ ''/auth/'' @ post \<Longrightarrow>
   getRedirectPath g u (Some p) = (case u of Some r \<Rightarrow> g (Some r) | None \<Rightarrow> ''/auth/login'')"
  using str_includes_iff [of p "''/auth/''"] by (simp add: getRedirectPath_def)

theorem getRedirectPath_auth_substring_witness:
  "getRedirectPath exampleDashboard (Some DOCTOR) (Some ''/dashboard/auth/x'') = ''/doctor/dashboard'' \<and>
   getRedirectPath exampleDashboard None (Some ''/dashboard/auth/x'') = ''/auth/login''"
proof -
  have h: "\<exists>pre post. ''/dashboard/auth/x'' = pre @ ''/auth/'' @ post"
  proof (intro exI)
    show "''/dashboard/auth/x'' = ''/dashboard'' @ ''/auth/'' @ ''x''" by simp
  qed
  show ?thesis
    using getRedirectPath_auth_substring [OF h, of exampleDashboard "Some DOCTOR"]
      getRedirectPath_auth_substring [OF h, of exampleDashboard None]
    by simp
qed


section \<open>Properties of logout\<close>

text \<open>
  Claim C1. When the remote logout action throws an error whose message contains
  \<^verbatim>\<open>401\<close>, \<^verbatim>\<open>Session\<close> or \<^verbatim>\<open>session\<close>, logout ends as a success: the whole cache is
  cleared, the cached session is \<^verbatim>\<open>null\<close>, the router goes to \<^verbatim>\<open>/auth/login\<close> and the
  success notification is shown. For every other thrown value the cache is cleared and the
  router goes to \<^verbatim>\<open>/auth/login\<close> all the same, and the notification is the error one that
  says the server logout failed.
\<close>

theorem logout_outcomes:
  "(str_includes m ''401'' \<or> str_includes m ''Session'' \<or> str_includes m ''session'' \<longrightarrow>
      logout (Inl (ErrorObj m)) st =
        st\<lparr>cache := [ [''session''] \<mapsto> \<lparr>data = CachedNull, isInvalidated = False\<rparr>],
           pushed := pushed st @ [''/auth/login''],
           toasts := toasts st @ [ToastSuccess (Some ''Logged out successfully'')]\<rparr>) \<and>
   (\<not> (\<exists>n. e = ErrorObj n \<and>
          (str_includes n ''401'' \<or> str_includes n ''Session'' \<or> str_includes n ''session'')) \<longrightarrow>
      logout (Inl e) st =
        st\<lparr>cache := [ [''session''] \<mapsto> \<lparr>data = CachedNull, isInvalidated = False\<rparr>],
           pushed := pushed st @ [''/auth/login''],
           toasts := toasts st
             @ [ToastError (Some ''Logged out locally, but server logout failed'')]\<rparr>)"
  by (cases e) (auto simp: logout_def logout_mutationFn_def logout_onSuccess_def
      logout_onError_def client_ops)

theorem logout_outcomes_witness:
  "logout (Inl (ErrorObj ''No active session'')) exampleClient =
     \<lparr>cache = [ [''session''] \<mapsto> \<lparr>data = CachedNull, isInvalidated = False\<rparr>],
      pushed = [''/auth/login''],
      toasts = [ToastSuccess (Some ''Logged out successfully'')]\<rparr> \<and>
   logout (Inl (ErrorObj ''Network down'')) exampleClient =
     \<lparr>cache = [ [''session''] \<mapsto> \<lparr>data = CachedNull, isInvalidated = False\<rparr>],
      pushed = [''/auth/login''],
      toasts = [ToastError (Some ''Logged out locally, but server logout failed'')]\<rparr>"
  using logout_outcomes [of "''No active session''" exampleClient "ErrorObj ''Network down''"]
  by (simp add: exampleClient_def)


section \<open>Properties of login\<close>

text \<open>
  Claim C3. When the remote login action returns a response with a user, login fills the
  missing profile fields of the user (first name, last name, phone, gender and address with
  the empty string, date of birth with an absent value), stores the response with that user
  under the session key of the cache, goes to the dashboard path of the user's role, and
  shows a welcome notification in which the user's first name occurs when the user has one.
  At the response \<open>{user: {role: DOCTOR, firstName: "Jo"}}\<close> the cached session has the role
  \<open>DOCTOR\<close>, the router goes to the doctor dashboard path and the notification contains
  \<open>Jo\<close>.
\<close>

theorem login_success:
  "user result = Some u \<Longrightarrow>
   login g (Inr result) st =
     st\<lparr>cache := (cache st)([''session''] \<mapsto>
          \<lparr>data = CachedSession (result\<lparr>user := Some (u\<lparr>
                    firstName := Some (case firstName u of None \<Rightarrow> [] | Some s \<Rightarrow> s),
                    lastName := Some (case lastName u of None \<Rightarrow> [] | Some s \<Rightarrow> s),
                    phone := Some (case phone u of None \<Rightarrow> [] | Some s \<Rightarrow> s),
                    dateOfBirth := (if dateOfBirth u = Some [] then None else dateOfBirth u),
                    gender := Some (case gender u of None \<Rightarrow> [] | Some s \<Rightarrow> s),
                    address := Some (case address u of None \<Rightarrow> [] | Some s \<Rightarrow> s)\<rparr>)\<rparr>),
           isInvalidated = False\<rparr>),
        pushed := pushed st @ [g (role u)],
        toasts := toasts st @ [ToastSuccess (Some (''Welcome back''
            @ (case firstName u of None \<Rightarrow> [] | Some f \<Rightarrow> if f = [] then [] else '', '' @ f)
            @ ''!''))]\<rparr> \<and>
   (\<forall>f. firstName u = Some f \<longrightarrow>
      (\<exists>pre post. ''Welcome back''
            @ (case firstName u of None \<Rightarrow> [] | Some f \<Rightarrow> if f = [] then [] else '', '' @ f)
            @ ''!'' = pre @ f @ post))"
proof (intro conjI allI impI)
  assume usr: "user result = Some u"
  define u' where "u' = u\<lparr>
                    firstName := Some (case firstName u of None \<Rightarrow> [] | Some s \<Rightarrow> s),
                    lastName := Some (case lastName u of None \<Rightarrow> [] | Some s \<Rightarrow> s),
                    phone := Some (case phone u of None \<Rightarrow> [] | Some s \<Rightarrow> s),
                    dateOfBirth := (if dateOfBirth u = Some [] then None else dateOfBirth u),
                    gender := Some (case gender u of None \<Rightarrow> [] | Some s \<Rightarrow> s),
                    address := Some (case address u of None \<Rightarrow> [] | Some s \<Rightarrow> s)\<rparr>"
  have n: "login_mutationFn (Inr result) = Inr (result\<lparr>user := Some u'\<rparr>)"
    using usr unfolding login_mutationFn_def u'_def js_or_def
    by (cases "firstName u"; cases "lastName u"; cases "phone u"; cases "dateOfBirth u";
        cases "gender u"; cases "address u") simp_all
  have fn: "firstName u' = Some (case firstName u of None \<Rightarrow> [] | Some s \<Rightarrow> s)" "role u' = role u"
    by (simp_all add: u'_def)
  have "login g (Inr result) st = toast_success (Some (''Welcome back''
            @ (case firstName u of None \<Rightarrow> [] | Some f \<Rightarrow> if f = [] then [] else '', '' @ f)
            @ ''!'')) (push (g (role u))
               (setQueryData [''session''] (CachedSession (result\<lparr>user := Some u'\<rparr>)) st))"
    unfolding login_def useMutation_def n login_onSuccess_def
    by (cases "firstName u") (simp_all add: fn Let_def)
  then show "login g (Inr result) st =
     st\<lparr>cache := (cache st)([''session''] \<mapsto>
          \<lparr>data = CachedSession (result\<lparr>user := Some (u\<lparr>
                    firstName := Some (case firstName u of None \<Rightarrow> [] | Some s \<Rightarrow> s),
                    lastName := Some (case lastName u of None \<Rightarrow> [] | Some s \<Rightarrow> s),
                    phone := Some (case phone u of None \<Rightarrow> [] | Some s \<Rightarrow> s),
                    dateOfBirth := (if dateOfBirth u = Some [] then None else dateOfBirth u),
                    gender := Some (case gender u of None \<Rightarrow> [] | Some s \<Rightarrow> s),
                    address := Some (case address u of None \<Rightarrow> [] | Some s \<Rightarrow> s)\<rparr>)\<rparr>),
           isInvalidated = False\<rparr>),
        pushed := pushed st @ [g (role u)],
        toasts := toasts st @ [ToastSuccess (Some (''Welcome back''
            @ (case firstName u of None \<Rightarrow> [] | Some f \<Rightarrow> if f = [] then [] else '', '' @ f)
            @ ''!''))]\<rparr>"
    by (simp add: client_ops u'_def)
next
  fix f assume f: "firstName u = Some f"
  show "\<exists>pre post. ''Welcome back''
            @ (case firstName u of None \<Rightarrow> [] | Some f \<Rightarrow> if f = [] then [] else '', '' @ f)
            @ ''!'' = pre @ f @ post"
  proof (cases "f = []")
    case True
    with f have "''Welcome back''
            @ (case firstName u of None \<Rightarrow> [] | Some f \<Rightarrow> if f = [] then [] else '', '' @ f)
            @ ''!'' = [] @ f @ ''Welcome back!''" by simp
    then show ?thesis by blast
  next
    case False
    with f have "''Welcome back''
            @ (case firstName u of None \<Rightarrow> [] | Some f \<Rightarrow> if f = [] then [] else '', '' @ f)
            @ ''!'' = ''Welcome back, '' @ f @ ''!''" by simp
    then show ?thesis by blast
  qed
qed

theorem login_success_witness:
  "cache (login exampleDashboard (Inr exampleResponse) exampleClient) [''session''] =
     Some \<lparr>data = CachedSession (exampleResponse\<lparr>user := Some (exampleUser\<lparr>
              lastName := Some [], phone := Some [], gender := Some [], address := Some []\<rparr>)\<rparr>),
           isInvalidated = False\<rparr> \<and>
   pushed (login exampleDashboard (Inr exampleResponse) exampleClient) = [''/doctor/dashboard''] \<and>
   toasts (login exampleDashboard (Inr exampleResponse) exampleClient)
     = [ToastSuccess (Some ''Welcome back, Jo!'')] \<and>
   str_includes ''Welcome back, Jo!'' ''Jo''"
proof -
  have h: "user exampleResponse = Some exampleUser" by (simp add: exampleResponse_def)
  show ?thesis
    using login_success [OF h, of exampleDashboard exampleClient]
    by (simp add: exampleClient_def exampleUser_def)
qed

text \<open>
  Claim C7. A login response without a user is an error: the only effect is the error
  notification with the message \<open>Invalid user data received\<close>; the router is not used and the
  cache is left as it is.
\<close>

theorem login_without_user:
  "user result = None \<Longrightarrow>
   login g (Inr result) st = st\<lparr>toasts := toasts st @ [ToastError (Some ''Invalid user data received'')]\<rparr>"
  by (simp add: login_def login_mutationFn_def login_onError_def js_or_def client_ops)

theorem login_without_user_witness:
  "login exampleDashboard (Inr (exampleResponse\<lparr>user := None\<rparr>)) exampleClient =
     exampleClient\<lparr>toasts := [ToastError (Some ''Invalid user data received'')]\<rparr>"
proof -
  have h: "user (exampleResponse\<lparr>user := None\<rparr>) = None" by simp
  show ?thesis
    using login_without_user [OF h, of exampleDashboard exampleClient]
    by (simp add: exampleClient_def)
qed



section \<open>Properties of the requests that only notify\<close>

text \<open>
  Claim C5, as amended. A successful \<open>forgotPassword\<close> or \<open>requestMagicLink\<close> shows the
  message of the server when the response has a non-empty one, and a fixed default message
  otherwise; the router is not used and the cache is left as it is. A successful
  \<open>requestOTP\<close> shows the message of the server and does not use the router; it keeps every
  cached query and its data, and marks the queries whose key starts with \<open>session\<close> as
  invalidated.
\<close>

theorem notify_only_requests:
  "pushed (requestOTP (Inr d) st) = pushed st \<and>
   toasts (requestOTP (Inr d) st) = toasts st @ [ToastSuccess (Some (otp_message d))] \<and>
   (\<forall>k. cache (requestOTP (Inr d) st) k =
          map_option (\<lambda>q. q\<lparr>isInvalidated := isInvalidated q \<or> prefix [''session''] k\<rparr>)
            (cache st k)) \<and>
   forgotPassword (Inr r) st =
     st\<lparr>toasts := toasts st @ [ToastSuccess (Some
          (case message r of
             Some m \<Rightarrow> if m = [] then ''Password reset instructions sent to your email'' else m
           | None \<Rightarrow> ''Password reset instructions sent to your email''))]\<rparr> \<and>
   requestMagicLink (Inr r) st =
     st\<lparr>toasts := toasts st @ [ToastSuccess (Some
          (case message r of
             Some m \<Rightarrow> if m = [] then ''Magic link sent to your email'' else m
           | None \<Rightarrow> ''Magic link sent to your email''))]\<rparr>"
proof (intro conjI allI)
  fix k
  show "cache (requestOTP (Inr d) st) k =
          map_option (\<lambda>q. q\<lparr>isInvalidated := isInvalidated q \<or> prefix [''session''] k\<rparr>)
            (cache st k)"
    by (cases "cache st k") (simp_all add: requestOTP_def client_ops)
qed (simp_all add: requestOTP_def forgotPassword_def requestMagicLink_def js_or_def client_ops
       split: option.split)

theorem notify_only_requests_witness:
  "requestOTP (Inr \<lparr>success = True, otp_message = ''OTP sent''\<rparr>) exampleClient =
     \<lparr>cache = [ [''session''] \<mapsto> \<lparr>data = CachedSession exampleResponse, isInvalidated = True\<rparr>,
               [''appointments''] \<mapsto> \<lparr>data = CachedOther ''[]'', isInvalidated = False\<rparr>],
      pushed = [], toasts = [ToastSuccess (Some ''OTP sent'')]\<rparr> \<and>
   forgotPassword (Inr (exampleResponse\<lparr>message := Some ''Check your inbox''\<rparr>)) exampleClient =
     exampleClient\<lparr>toasts := [ToastSuccess (Some ''Check your inbox'')]\<rparr> \<and>
   requestMagicLink (Inr exampleResponse) exampleClient =
     exampleClient\<lparr>toasts := [ToastSuccess (Some ''Magic link sent to your email'')]\<rparr>"
proof -
  let ?d = "\<lparr>success = True, otp_message = ''OTP sent''\<rparr>"
  let ?r = "exampleResponse\<lparr>message := Some ''Check your inbox''\<rparr>"
  note a = notify_only_requests [of ?d exampleClient ?r]
  note b = notify_only_requests [of ?d exampleClient exampleResponse]
  have c: "cache (requestOTP (Inr ?d) exampleClient) =
      [ [''session''] \<mapsto> \<lparr>data = CachedSession exampleResponse, isInvalidated = True\<rparr>,
       [''appointments''] \<mapsto> \<lparr>data = CachedOther ''[]'', isInvalidated = False\<rparr>]"
  proof
    fix k
    show "cache (requestOTP (Inr ?d) exampleClient) k =
      [ [''session''] \<mapsto> \<lparr>data = CachedSession exampleResponse, isInvalidated = True\<rparr>,
       [''appointments''] \<mapsto> \<lparr>data = CachedOther ''[]'', isInvalidated = False\<rparr>] k"
      using a by (simp add: exampleClient_def)
  qed
  have "requestOTP (Inr ?d) exampleClient =
     \<lparr>cache = [ [''session''] \<mapsto> \<lparr>data = CachedSession exampleResponse, isInvalidated = True\<rparr>,
               [''appointments''] \<mapsto> \<lparr>data = CachedOther ''[]'', isInvalidated = False\<rparr>],
      pushed = [], toasts = [ToastSuccess (Some ''OTP sent'')]\<rparr>"
    using a c by (intro client.equality) (simp_all add: exampleClient_def)
  moreover have "forgotPassword (Inr ?r) exampleClient =
     exampleClient\<lparr>toasts := [ToastSuccess (Some ''Check your inbox'')]\<rparr>"
    using a by (simp add: exampleClient_def)
  moreover have "requestMagicLink (Inr exampleResponse) exampleClient =
     exampleClient\<lparr>toasts := [ToastSuccess (Some ''Magic link sent to your email'')]\<rparr>"
    using b by (simp add: exampleClient_def exampleResponse_def)
  ultimately show ?thesis by blast
qed

text \<open>
  Claim C5 as stated fails: after a successful \<open>requestOTP\<close> the cached session is
  invalidated, and \<open>forgotPassword\<close> does not show an empty message of the server.
\<close>

theorem requestOTP_invalidates_counterexample:
  "cache (requestOTP (Inr \<lparr>success = True, otp_message = ''OTP sent''\<rparr>) exampleClient) [''session'']
     \<noteq> cache exampleClient [''session''] \<and>
   toasts (forgotPassword (Inr (exampleResponse\<lparr>message := Some []\<rparr>)) exampleClient)
     \<noteq> [ToastSuccess (Some [])]"
  by (simp add: requestOTP_def forgotPassword_def js_or_def client_ops exampleClient_def)


section \<open>Failing operations\<close>

lemmas mutation_defs = login_def login_mutationFn_def login_onError_def googleLogin_def
  register_def registerWithClinic_def verifyOTP_def requestOTP_def forgotPassword_def
  resetPassword_def socialLogin_def requestMagicLink_def verifyMagicLink_def changePassword_def
  terminateAllSessions_def checkOTPStatus_def invalidateOTP_def verifyEmail_def
  facebookLogin_def getSession_def

lemma failed_toast_or_nothing:
  assumes "op \<noteq> Logout"
  shows "failed g op e st = st \<or> (\<exists>m. failed g op e st = st\<lparr>toasts := toasts st @ [ToastError m]\<rparr>)"
proof (cases "error_message e")
  case (Inl u)
  with assms show ?thesis
    by (cases op; simp add: mutation_defs client_ops; blast?)
next
  case (Inr m)
  with assms show ?thesis
    by (cases op; simp add: mutation_defs client_ops; blast?)
qed

lemma failed_Error_toast:
  assumes "op \<noteq> Logout" "op \<noteq> GetSession"
  shows "\<exists>m. failed g op (ErrorObj msg) st = st\<lparr>toasts := toasts st @ [ToastError m]\<rparr>"
  using assms by (cases op; simp add: mutation_defs client_ops; blast?)

lemma failed_Logout:
  "failed g Logout e st = logout_onSuccess () st \<or> failed g Logout e st = logout_onError e st"
proof -
  have "logout_mutationFn (Inl e) = Inr () \<or> logout_mutationFn (Inl e) = Inl e"
    by (cases e) (simp_all add: logout_mutationFn_def)
  then show ?thesis by (auto simp: logout_def useMutation_def)
qed

text \<open>
  Claim C6, as amended. When the remote action of an operation other than logout throws
  (\<open>terminateAllSessions\<close> and the session query included), the worst case is one error
  notification: the client state is left as it is, or as it is but for one added error
  notification; the cache and the router are never touched. An \<^verbatim>\<open>Error\<close> instance gives
  exactly one error notification in every mutation other than logout, and so does a login
  response without a user. Logout is the one exception: when its remote action throws, the
  whole cache is cleared, the cached session is \<^verbatim>\<open>null\<close>, the router goes to
  \<^verbatim>\<open>/auth/login\<close> and one notification is shown.
\<close>

theorem failure_effects:
  "(op \<noteq> Logout \<longrightarrow>
      failed g op e st = st \<or>
      (\<exists>m. failed g op e st = st\<lparr>toasts := toasts st @ [ToastError m]\<rparr>)) \<and>
   (op \<noteq> Logout \<and> op \<noteq> GetSession \<longrightarrow>
      (\<exists>m. failed g op (ErrorObj msg) st = st\<lparr>toasts := toasts st @ [ToastError m]\<rparr>)) \<and>
   (user result = None \<longrightarrow>
      login g (Inr result) st =
        st\<lparr>toasts := toasts st @ [ToastError (Some ''Invalid user data received'')]\<rparr>) \<and>
   cache (failed g Logout e st) = [ [''session''] \<mapsto> \<lparr>data = CachedNull, isInvalidated = False\<rparr>] \<and>
   pushed (failed g Logout e st) = pushed st @ [''/auth/login''] \<and>
   (\<exists>t. toasts (failed g Logout e st) = toasts st @ [t])"
proof (intro conjI impI)
  assume "op \<noteq> Logout"
  then show "failed g op e st = st \<or>
      (\<exists>m. failed g op e st = st\<lparr>toasts := toasts st @ [ToastError m]\<rparr>)"
    by (rule failed_toast_or_nothing)
next
  assume "op \<noteq> Logout \<and> op \<noteq> GetSession"
  then show "\<exists>m. failed g op (ErrorObj msg) st = st\<lparr>toasts := toasts st @ [ToastError m]\<rparr>"
    by (simp add: failed_Error_toast)
next
  assume "user result = None"
  then show "login g (Inr result) st =
        st\<lparr>toasts := toasts st @ [ToastError (Some ''Invalid user data received'')]\<rparr>"
    by (simp add: login_def login_mutationFn_def login_onError_def js_or_def client_ops)
next
  note l = failed_Logout [of g e st]
  from l show "cache (failed g Logout e st) = [ [''session''] \<mapsto> \<lparr>data = CachedNull, isInvalidated = False\<rparr>]"
    by (auto simp: logout_onSuccess_def logout_onError_def client_ops)
  from l show "pushed (failed g Logout e st) = pushed st @ [''/auth/login'']"
    by (auto simp: logout_onSuccess_def logout_onError_def client_ops)
  from l show "\<exists>t. toasts (failed g Logout e st) = toasts st @ [t]"
    by (auto simp: logout_onSuccess_def logout_onError_def client_ops)
qed

theorem failure_effects_witness:
  "failed exampleDashboard TerminateAllSessions (ErrorObj ''Server unavailable'') exampleClient
     = exampleClient\<lparr>toasts := [ToastError (Some ''Server unavailable'')]\<rparr> \<and>
   failed exampleDashboard TerminateAllSessions Nullish exampleClient = exampleClient \<and>
   failed exampleDashboard GetSession (ErrorObj ''Server unavailable'') exampleClient = exampleClient \<and>
   login exampleDashboard (Inr (exampleResponse\<lparr>user := None\<rparr>)) exampleClient
     = exampleClient\<lparr>toasts := [ToastError (Some ''Invalid user data received'')]\<rparr> \<and>
   cache (failed exampleDashboard Logout (ErrorObj ''Server unavailable'') exampleClient)
     = [ [''session''] \<mapsto> \<lparr>data = CachedNull, isInvalidated = False\<rparr>]"
proof -
  let ?e = "ErrorObj ''Server unavailable''"
  note w = failure_effects [of TerminateAllSessions exampleDashboard ?e exampleClient
      "''Server unavailable''" "exampleResponse\<lparr>user := None\<rparr>"]
  note n = failure_effects [of TerminateAllSessions exampleDashboard Nullish exampleClient
      "''Server unavailable''" "exampleResponse\<lparr>user := None\<rparr>"]
  note q = failure_effects [of GetSession exampleDashboard ?e exampleClient
      "''Server unavailable''" "exampleResponse\<lparr>user := None\<rparr>"]
  have d: "TerminateAllSessions \<noteq> Logout \<and> TerminateAllSessions \<noteq> GetSession"
    "GetSession \<noteq> Logout" "user (exampleResponse\<lparr>user := None\<rparr>) = None"
    by simp_all
  have t: "toasts (failed exampleDashboard TerminateAllSessions ?e exampleClient)
      = [ToastError (Some ''Server unavailable'')]"
    "toasts (failed exampleDashboard TerminateAllSessions Nullish exampleClient) = []"
    "toasts (failed exampleDashboard GetSession ?e exampleClient) = []"
    by (simp_all add: terminateAllSessions_def getSession_def js_or_def client_ops exampleClient_def)
  from w d obtain m where "failed exampleDashboard TerminateAllSessions ?e exampleClient
      = exampleClient\<lparr>toasts := toasts exampleClient @ [ToastError m]\<rparr>" by blast
  with t(1) have 1: "failed exampleDashboard TerminateAllSessions ?e exampleClient
     = exampleClient\<lparr>toasts := [ToastError (Some ''Server unavailable'')]\<rparr>"
    by (simp add: exampleClient_def)
  from n d t(2) have 2: "failed exampleDashboard TerminateAllSessions Nullish exampleClient = exampleClient"
    by auto
  from q d t(3) have 3: "failed exampleDashboard GetSession ?e exampleClient = exampleClient"
    by auto
  from w d have 4: "login exampleDashboard (Inr (exampleResponse\<lparr>user := None\<rparr>)) exampleClient
     = exampleClient\<lparr>toasts := [ToastError (Some ''Invalid user data received'')]\<rparr>"
    by (simp add: exampleClient_def)
  from w have 5: "cache (failed exampleDashboard Logout ?e exampleClient)
     = [ [''session''] \<mapsto> \<lparr>data = CachedNull, isInvalidated = False\<rparr>]" by blast
  from 1 2 3 4 5 show ?thesis by blast
qed

text \<open>
  Claim C6 as stated fails for \<open>terminateAllSessions\<close>: when its remote action throws,
  the cache is not cleared and the cached session stays.
\<close>

theorem terminateAllSessions_failure_counterexample:
  "cache (failed exampleDashboard TerminateAllSessions (ErrorObj ''Server unavailable'') exampleClient)
     [''appointments''] = Some \<lparr>data = CachedOther ''[]'', isInvalidated = False\<rparr> \<and>
   cache (failed exampleDashboard TerminateAllSessions (ErrorObj ''Server unavailable'') exampleClient)
     [''session''] = Some \<lparr>data = CachedSession exampleResponse, isInvalidated = False\<rparr>"
  by (simp add: terminateAllSessions_def js_or_def client_ops exampleClient_def)


section \<open>The strong-password validator\<close>

lemma char_mem_iff: "c \<in> set S \<longleftrightarrow> (of_char c :: nat) \<in> set (map of_char S)"
  by auto

lemma in_range_upper: "in_range CHR ''A'' CHR ''Z'' c \<longleftrightarrow> c \<in> set ''ABCDEFGHIJKLMNOPQRSTUVWXYZ''"
proof -
  have "in_range CHR ''A'' CHR ''Z'' c \<longleftrightarrow> (of_char c :: nat) \<in> {65..<91}"
    by (auto simp: in_range_def)
  also have "\<dots> \<longleftrightarrow> c \<in> set ''ABCDEFGHIJKLMNOPQRSTUVWXYZ''"
    unfolding atLeastLessThan_upt char_mem_iff [of c "''ABCDEFGHIJKLMNOPQRSTUVWXYZ''"] by (simp add: upt_rec)
  finally show ?thesis .
qed

lemma in_range_lower: "in_range CHR ''a'' CHR ''z'' c \<longleftrightarrow> c \<in> set ''abcdefghijklmnopqrstuvwxyz''"
proof -
  have "in_range CHR ''a'' CHR ''z'' c \<longleftrightarrow> (of_char c :: nat) \<in> {97..<123}"
    by (auto simp: in_range_def)
  also have "\<dots> \<longleftrightarrow> c \<in> set ''abcdefghijklmnopqrstuvwxyz''"
    unfolding atLeastLessThan_upt char_mem_iff [of c "''abcdefghijklmnopqrstuvwxyz''"] by (simp add: upt_rec)
  finally show ?thesis .
qed

lemma in_range_digit: "in_range CHR ''0'' CHR ''9'' c \<longleftrightarrow> c \<in> set ''0123456789''"
proof -
  have "in_range CHR ''0'' CHR ''9'' c \<longleftrightarrow> (of_char c :: nat) \<in> {48..<58}"
    by (auto simp: in_range_def)
  also have "\<dots> \<longleftrightarrow> c \<in> set ''0123456789''"
    unfolding atLeastLessThan_upt char_mem_iff [of c "''0123456789''"] by (simp add: upt_rec)
  finally show ?thesis .
qed

lemma zString_JStr:
  "zString checks path (JStr s) =
     (Some s, map (\<lambda>c. (path, Message (snd c))) (filter (\<lambda>c. \<not> fst c s) checks))"
  by (simp add: zString_def)

text \<open>
  Claim C4. On a string, the password validator of \<^verbatim>\<open>registerSchema\<close> raises exactly one
  issue for each condition the string misses, each with its own message: fewer than 8
  characters, no letter \<open>A\<close> to \<open>Z\<close>, no letter \<open>a\<close> to \<open>z\<close>, no digit, no character other
  than these letters and digits. It accepts the string if and only if all five conditions
  hold. The new-password validator of \<^verbatim>\<open>changePasswordSchema\<close> raises the same messages and
  accepts the same strings.
\<close>

theorem strong_password_validator:
  "fst (registerSchema_password (JStr p)) = Some p \<and>
   set (snd (registerSchema_password (JStr p))) =
     (if 8 \<le> length p then {}
      else {([''password''], Message ''Password must be at least 8 characters'')}) \<union>
     (if \<exists>c \<in> set p. c \<in> set ''ABCDEFGHIJKLMNOPQRSTUVWXYZ'' then {}
      else {([''password''], Message ''Password must contain at least one uppercase letter'')}) \<union>
     (if \<exists>c \<in> set p. c \<in> set ''abcdefghijklmnopqrstuvwxyz'' then {}
      else {([''password''], Message ''Password must contain at least one lowercase letter'')}) \<union>
     (if \<exists>c \<in> set p. c \<in> set ''0123456789'' then {}
      else {([''password''], Message ''Password must contain at least one number'')}) \<union>
     (if \<exists>c \<in> set p. c \<notin> set
           ''ABCDEFGHIJKLMNOPQRSTUVWXYZabcdefghijklmnopqrstuvwxyz0123456789'' then {}
      else {([''password''], Message ''Password must contain at least one special character'')}) \<and>
   (safeParse (registerSchema_password (JStr p)) = Inr p \<longleftrightarrow>
      8 \<le> length p \<and>
      (\<exists>c \<in> set p. c \<in> set ''ABCDEFGHIJKLMNOPQRSTUVWXYZ'') \<and>
      (\<exists>c \<in> set p. c \<in> set ''abcdefghijklmnopqrstuvwxyz'') \<and>
      (\<exists>c \<in> set p. c \<in> set ''0123456789'') \<and>
      (\<exists>c \<in> set p. c \<notin> set
           ''ABCDEFGHIJKLMNOPQRSTUVWXYZabcdefghijklmnopqrstuvwxyz0123456789'')) \<and>
   fst (changePasswordSchema_newPassword (JStr p)) = Some p \<and>
   snd (changePasswordSchema_newPassword (JStr p)) =
     map (\<lambda>i. ([''newPassword''], snd i)) (snd (registerSchema_password (JStr p))) \<and>
   (safeParse (changePasswordSchema_newPassword (JStr p)) = Inr p \<longleftrightarrow>
      safeParse (registerSchema_password (JStr p)) = Inr p)"
proof -
  have up: "re_upper p \<longleftrightarrow> (\<exists>c \<in> set p. c \<in> set ''ABCDEFGHIJKLMNOPQRSTUVWXYZ'')"
    unfolding re_upper_def list_ex_iff in_range_upper ..
  have lo: "re_lower p \<longleftrightarrow> (\<exists>c \<in> set p. c \<in> set ''abcdefghijklmnopqrstuvwxyz'')"
    unfolding re_lower_def list_ex_iff in_range_lower ..
  have di: "re_digit p \<longleftrightarrow> (\<exists>c \<in> set p. c \<in> set ''0123456789'')"
    unfolding re_digit_def list_ex_iff in_range_digit ..
  have sp: "re_special p \<longleftrightarrow> (\<exists>c \<in> set p. c \<notin> set
           ''ABCDEFGHIJKLMNOPQRSTUVWXYZabcdefghijklmnopqrstuvwxyz0123456789'')"
  proof -
    have "set ''ABCDEFGHIJKLMNOPQRSTUVWXYZabcdefghijklmnopqrstuvwxyz0123456789'' =
        set ''ABCDEFGHIJKLMNOPQRSTUVWXYZ'' \<union> set ''abcdefghijklmnopqrstuvwxyz'' \<union> set ''0123456789''"
      by (simp only: set_append [symmetric] append.simps)
    then show ?thesis
      unfolding re_special_def list_ex_iff in_range_upper in_range_lower in_range_digit by blast
  qed
  have f: "fst (registerSchema_password (JStr p)) = Some p"
    "fst (changePasswordSchema_newPassword (JStr p)) = Some p"
    by (simp_all add: registerSchema_password_def changePasswordSchema_newPassword_def zString_JStr)
  have s: "set (snd (registerSchema_password (JStr p))) =
     (if 8 \<le> length p then {}
      else {([''password''], Message ''Password must be at least 8 characters'')}) \<union>
     (if re_upper p then {}
      else {([''password''], Message ''Password must contain at least one uppercase letter'')}) \<union>
     (if re_lower p then {}
      else {([''password''], Message ''Password must contain at least one lowercase letter'')}) \<union>
     (if re_digit p then {}
      else {([''password''], Message ''Password must contain at least one number'')}) \<union>
     (if re_special p then {}
      else {([''password''], Message ''Password must contain at least one special character'')})"
    by (auto simp: registerSchema_password_def zString_JStr min_check_def)
  have e: "snd (registerSchema_password (JStr p)) = [] \<longleftrightarrow>
      8 \<le> length p \<and> re_upper p \<and> re_lower p \<and> re_digit p \<and> re_special p"
    by (simp add: registerSchema_password_def zString_JStr min_check_def)
  have c: "snd (changePasswordSchema_newPassword (JStr p)) =
     map (\<lambda>i. ([''newPassword''], snd i)) (snd (registerSchema_password (JStr p)))"
    by (simp add: registerSchema_password_def changePasswordSchema_newPassword_def zString_JStr)
  have a: "safeParse (registerSchema_password (JStr p)) = Inr p \<longleftrightarrow>
      snd (registerSchema_password (JStr p)) = []"
    by (simp add: safeParse_def f)
  have b: "safeParse (changePasswordSchema_newPassword (JStr p)) = Inr p \<longleftrightarrow>
      snd (registerSchema_password (JStr p)) = []"
    by (simp add: safeParse_def f c)
  show ?thesis
    unfolding s a b e up lo di sp using f c by simp
qed

theorem strong_password_validator_witness:
  "safeParse (registerSchema_password (JStr ''Abcdef1!'')) = Inr ''Abcdef1!'' \<and>
   safeParse (changePasswordSchema_newPassword (JStr ''Abcdef1!'')) = Inr ''Abcdef1!'' \<and>
   set (snd (registerSchema_password (JStr ''abcdefgh''))) =
     {([''password''], Message ''Password must contain at least one uppercase letter''),
      ([''password''], Message ''Password must contain at least one number''),
      ([''password''], Message ''Password must contain at least one special character'')} \<and>
   set (snd (registerSchema_password (JStr ''Ab1!''))) =
     {([''password''], Message ''Password must be at least 8 characters'')}"
  using strong_password_validator [of "''Abcdef1!''"] strong_password_validator [of "''abcdefgh''"]
    strong_password_validator [of "''Ab1!''"]
  by (simp add: insert_commute)


section \<open>Properties of the schema library and of the schema objects\<close>

lemma zString_Some:
  "fst (zString checks path v) = Some s \<Longrightarrow> v = JStr s"
  by (cases v) (simp_all add: zString_def)

lemma zBoolean_Some: "fst (zBoolean path v) = Some b \<Longrightarrow> v = JBool b"
  by (cases v) (simp_all add: zBoolean_def)

lemma zNumber_Some: "fst (zNumber path v) = Some n \<Longrightarrow> v = JNum n"
  by (cases v) (simp_all add: zNumber_def)

lemma zEnum_Some: "fst (zEnum values path v) = Some s \<Longrightarrow> v = JStr s \<and> s \<in> set values"
  by (cases v) (simp_all add: zEnum_def split: if_splits)

lemma zEnum_member: "s \<in> set values \<Longrightarrow> zEnum values path (JStr s) = (Some s, [])"
  by (simp add: zEnum_def)

lemma zRefine_Some: "fst (zRefine check m path r) = fst r"
  by (cases "fst r") (simp_all add: zRefine_def)

lemma zRefine_snd:
  "snd (zRefine check m path r) =
     (case fst r of None \<Rightarrow> snd r
      | Some x \<Rightarrow> if check x then snd r else snd r @ [(path, Message m)])"
  by (cases "fst r") (simp_all add: zRefine_def)

lemma safeParse_Inr: "safeParse r = Inr x \<longleftrightarrow> fst r = Some x \<and> snd r = []"
  by (cases "fst r") (auto simp: safeParse_def)

lemma safeParse_rejects: "snd r \<noteq> [] \<or> fst r = None \<Longrightarrow> \<exists>iss. safeParse r = Inl iss"
  by (cases "fst r") (auto simp: safeParse_def)

lemma registerSchema_object_fst:
  assumes "fst (registerSchema_object isEmail roleValue inp) = Some d"
  shows "fst (zString [(isEmail, ''Please enter a valid email address'')] [''email'']
                (in_email inp)) = Some (out_email d)"
    and "fst (registerSchema_password (in_password inp)) = Some (out_password d)"
    and "fst (zString [] [''confirmPassword''] (in_confirmPassword inp)) = Some (out_confirmPassword d)"
    and "fst (zString [min_check 2 ''First name must be at least 2 characters'']
                        [''firstName''] (in_firstName inp)) = Some (out_firstName d)"
    and "fst (zString [min_check 2 ''Last name must be at least 2 characters'']
                       [''lastName''] (in_lastName inp)) = Some (out_lastName d)"
    and "fst (zString [min_check 10 ''Phone number must be at least 10 characters'']
                    [''phone''] (in_phone inp)) = Some (out_phone d)"
    and "fst (zDefault (JStr ''MALE'') (zEnum [''MALE'', ''FEMALE'', ''OTHER''] [''gender''])
                     (in_gender inp)) = Some (out_gender d)"
    and "fst (zDefault (JStr (roleValue PATIENT)) (createRoleEnum roleValue [''role''])
                   (in_role inp)) = Some (out_role d)"
    and "fst (zDefault (JNum 18) (zNumber [''age'']) (in_age inp)) = Some (out_age d)"
    and "fst (zRefine (\<lambda>val. val = True) ''You must accept the terms and conditions''
                    [''terms''] (zBoolean [''terms''] (in_terms inp))) = Some (out_terms d)"
  using assms
  by (auto simp: registerSchema_object_def Let_def bind_eq_Some_conv)

lemma registerSchema_object_snd:
  "snd (registerSchema_object isEmail roleValue inp) =
     snd (zString [(isEmail, ''Please enter a valid email address'')] [''email''] (in_email inp))
     @ snd (registerSchema_password (in_password inp))
     @ snd (zString [] [''confirmPassword''] (in_confirmPassword inp))
     @ snd (zString [min_check 2 ''First name must be at least 2 characters'']
                        [''firstName''] (in_firstName inp))
     @ snd (zString [min_check 2 ''Last name must be at least 2 characters'']
                       [''lastName''] (in_lastName inp))
     @ snd (zString [min_check 10 ''Phone number must be at least 10 characters'']
                    [''phone''] (in_phone inp))
     @ snd (zDefault (JStr ''MALE'') (zEnum [''MALE'', ''FEMALE'', ''OTHER''] [''gender''])
                     (in_gender inp))
     @ snd (zDefault (JStr (roleValue PATIENT)) (createRoleEnum roleValue [''role''])
                   (in_role inp))
     @ snd (zDefault (JNum 18) (zNumber [''age'']) (in_age inp))
     @ snd (zRefine (\<lambda>val. val = True) ''You must accept the terms and conditions''
                    [''terms''] (zBoolean [''terms''] (in_terms inp)))"
  by (simp add: registerSchema_object_def Let_def)


lemma registerSchema_object_typed:
  assumes "in_email inp = JStr e" "in_password inp = JStr p" "in_confirmPassword inp = JStr c"
    and "in_firstName inp = JStr f" "in_lastName inp = JStr l" "in_phone inp = JStr ph"
    and "in_gender inp \<in> {JUndefined, JStr ''MALE'', JStr ''FEMALE'', JStr ''OTHER''}"
    and "in_role inp = JUndefined \<or> (\<exists>r. in_role inp = JStr (roleValue r))"
    and "in_age inp = JUndefined \<or> (\<exists>n. in_age inp = JNum n)"
    and "in_terms inp = JBool t"
  shows "\<exists>d. fst (registerSchema_object isEmail roleValue inp) = Some d
           \<and> out_password d = p \<and> out_confirmPassword d = c"
proof -
  obtain g where g: "fst (zDefault (JStr ''MALE'') (zEnum [''MALE'', ''FEMALE'', ''OTHER''] [''gender''])
                     (in_gender inp)) = Some g"
    using assms(7) by (auto simp: zDefault_def zEnum_def)
  have "\<And>r. roleValue r \<in> set [roleValue SUPER_ADMIN, roleValue CLINIC_ADMIN, roleValue DOCTOR,
            roleValue RECEPTIONIST, roleValue PATIENT]"
    subgoal for r by (cases r) simp_all
    done
  then obtain ro where ro: "fst (zDefault (JStr (roleValue PATIENT)) (createRoleEnum roleValue [''role''])
                   (in_role inp)) = Some ro"
    using assms(8) by (auto simp: zDefault_def createRoleEnum_def zEnum_member)
  obtain a where a: "fst (zDefault (JNum 18) (zNumber [''age'']) (in_age inp)) = Some a"
    using assms(9) by (auto simp: zDefault_def zNumber_def)
  have t: "fst (zRefine (\<lambda>val. val = True) ''You must accept the terms and conditions''
                    [''terms''] (zBoolean [''terms''] (in_terms inp))) = Some t"
    using assms(10) by (simp add: zRefine_Some zBoolean_def)
  show ?thesis
    using assms(1-6) g ro a t
    by (simp add: registerSchema_object_def Let_def registerSchema_password_def zString_JStr)
qed

lemma registerSchema_mismatch:
  assumes "in_email inp = JStr e" "in_password inp = JStr p" "in_confirmPassword inp = JStr c"
    and "in_firstName inp = JStr f" "in_lastName inp = JStr l" "in_phone inp = JStr ph"
    and "in_gender inp \<in> {JUndefined, JStr ''MALE'', JStr ''FEMALE'', JStr ''OTHER''}"
    and "in_role inp = JUndefined \<or> (\<exists>r. in_role inp = JStr (roleValue r))"
    and "in_age inp = JUndefined \<or> (\<exists>n. in_age inp = JNum n)"
    and "in_terms inp = JBool t"
    and "p \<noteq> c"
  shows "safeParse (registerSchema isEmail roleValue inp) =
           Inl (snd (registerSchema_object isEmail roleValue inp)
                @ [([''confirmPassword''], Message ''Passwords don't match'')])"
proof -
  from registerSchema_object_typed [OF assms(1-10)]
  obtain d where d: "fst (registerSchema_object isEmail roleValue inp) = Some d"
    "out_password d = p" "out_confirmPassword d = c" by blast
  with assms(11) show ?thesis
    by (simp add: registerSchema_def safeParse_def zRefine_def)
qed

lemma registerSchema_rejects_mismatch:
  assumes "in_password inp \<noteq> in_confirmPassword inp"
  shows "\<exists>iss. safeParse (registerSchema isEmail roleValue inp) = Inl iss"
proof (cases "fst (registerSchema_object isEmail roleValue inp)")
  case None
  then show ?thesis by (simp add: registerSchema_def safeParse_def zRefine_def)
next
  case (Some d)
  from registerSchema_object_fst(2,3) [OF Some]
  have "in_password inp = JStr (out_password d)" "in_confirmPassword inp = JStr (out_confirmPassword d)"
    by (auto simp: registerSchema_password_def dest: zString_Some)
  with assms have "out_password d \<noteq> out_confirmPassword d" by auto
  with Some show ?thesis by (simp add: registerSchema_def safeParse_def zRefine_def)
qed

lemma resetPasswordSchema_mismatch:
  assumes "rin_password inp = JStr p" "rin_confirmPassword inp = JStr c" "rin_token inp = JStr t"
    and "p \<noteq> c"
  shows "safeParse (resetPasswordSchema inp) =
           Inl (snd (resetPasswordSchema_object inp)
                @ [([''confirmPassword''], Message ''Passwords don't match'')])"
  using assms
  by (simp add: resetPasswordSchema_def resetPasswordSchema_object_def safeParse_def zRefine_def
      zString_JStr Let_def)

lemma resetPasswordSchema_rejects_mismatch:
  assumes "rin_password inp \<noteq> rin_confirmPassword inp"
  shows "\<exists>iss. safeParse (resetPasswordSchema inp) = Inl iss"
proof (cases "fst (resetPasswordSchema_object inp)")
  case None
  then show ?thesis by (simp add: resetPasswordSchema_def safeParse_def zRefine_def)
next
  case (Some d)
  then have "rin_password inp = JStr (rout_password d)"
    "rin_confirmPassword inp = JStr (rout_confirmPassword d)"
    by (auto simp: resetPasswordSchema_object_def Let_def bind_eq_Some_conv dest: zString_Some)
  with assms have "rout_password d \<noteq> rout_confirmPassword d" by auto
  with Some show ?thesis by (simp add: resetPasswordSchema_def safeParse_def zRefine_def)
qed

lemma changePasswordSchema_mismatch:
  assumes "cin_currentPassword inp = JStr cu" "cin_newPassword inp = JStr p"
    and "cin_confirmPassword inp = JStr c" "p \<noteq> c"
  shows "safeParse (changePasswordSchema inp) =
           Inl (snd (changePasswordSchema_object inp)
                @ [([''confirmPassword''], Message ''Passwords don't match'')])"
  using assms
  by (simp add: changePasswordSchema_def changePasswordSchema_object_def safeParse_def zRefine_def
      changePasswordSchema_newPassword_def zString_JStr Let_def)

lemma changePasswordSchema_rejects_mismatch:
  assumes "cin_newPassword inp \<noteq> cin_confirmPassword inp"
  shows "\<exists>iss. safeParse (changePasswordSchema inp) = Inl iss"
proof (cases "fst (changePasswordSchema_object inp)")
  case None
  then show ?thesis by (simp add: changePasswordSchema_def safeParse_def zRefine_def)
next
  case (Some d)
  then have "cin_newPassword inp = JStr (cout_newPassword d)"
    "cin_confirmPassword inp = JStr (cout_confirmPassword d)"
    by (auto simp: changePasswordSchema_object_def changePasswordSchema_newPassword_def Let_def
        bind_eq_Some_conv dest: zString_Some)
  with assms have "cout_newPassword d \<noteq> cout_confirmPassword d" by auto
  with Some show ?thesis by (simp add: changePasswordSchema_def safeParse_def zRefine_def)
qed


lemma zString_min:
  "zString [min_check n m] path v = (Some s, []) \<Longrightarrow> v = JStr s \<and> n \<le> length s"
  by (cases v) (auto simp: zString_def min_check_def split: if_splits)

lemma range_roleValue:
  "set [roleValue SUPER_ADMIN, roleValue CLINIC_ADMIN, roleValue DOCTOR,
        roleValue RECEPTIONIST, roleValue PATIENT] = range roleValue"
proof -
  have "(UNIV :: Role set) = {SUPER_ADMIN, CLINIC_ADMIN, DOCTOR, RECEPTIONIST, PATIENT}"
    using Role.exhaust by auto
  then have "range roleValue = roleValue ` {SUPER_ADMIN, CLINIC_ADMIN, DOCTOR, RECEPTIONIST, PATIENT}"
    by simp
  then show ?thesis by simp
qed

lemma zDefault_zEnum:
  assumes "fst (zDefault (JStr d) (zEnum values path) v) = Some s"
  shows "s \<in> set values" "v = JUndefined \<longrightarrow> s = d" "v \<noteq> JUndefined \<longrightarrow> v = JStr s"
  using assms by (auto simp: zDefault_def dest: zEnum_Some split: if_splits)

lemma zDefault_zNumber:
  assumes "fst (zDefault (JNum d) (zNumber path) v) = Some n"
  shows "v = JUndefined \<longrightarrow> n = d" "v \<noteq> JUndefined \<longrightarrow> v = JNum n"
  using assms by (auto simp: zDefault_def dest: zNumber_Some split: if_splits)

lemma terms_rejected:
  assumes "in_terms inp \<noteq> JBool True"
  shows "\<exists>iss. safeParse (registerSchema isEmail roleValue inp) = Inl iss"
proof -
  have "snd (zRefine (\<lambda>val. val = True) ''You must accept the terms and conditions''
                    [''terms''] (zBoolean [''terms''] (in_terms inp))) \<noteq> []"
    using assms by (cases "in_terms inp") (auto simp: zRefine_def zBoolean_def)
  then have "snd (registerSchema_object isEmail roleValue inp) \<noteq> []"
    by (simp add: registerSchema_object_snd)
  then have "snd (registerSchema isEmail roleValue inp) \<noteq> []"
    by (simp add: registerSchema_def zRefine_snd split: option.split)
  then show ?thesis by (simp add: safeParse_rejects)
qed

lemma registerSchema_accepted:
  assumes "safeParse (registerSchema isEmail roleValue inp) = Inr d"
  shows "fst (registerSchema_object isEmail roleValue inp) = Some d"
    and "snd (registerSchema_object isEmail roleValue inp) = []"
proof -
  from assms have a: "fst (registerSchema isEmail roleValue inp) = Some d"
    "snd (registerSchema isEmail roleValue inp) = []"
    by (simp_all add: safeParse_Inr)
  from a(1) show b: "fst (registerSchema_object isEmail roleValue inp) = Some d"
    by (simp add: registerSchema_def zRefine_Some)
  from a(2) b show "snd (registerSchema_object isEmail roleValue inp) = []"
    by (simp add: registerSchema_def zRefine_snd split: if_splits)
qed



lemma zString_issue:
  "(p, Message m) \<in> set (snd (zString checks path v)) \<Longrightarrow> p = path \<and> m \<in> snd ` set checks"
  by (cases v) (auto simp: zString_def)

lemma zBoolean_issue: "(p, Message m) \<notin> set (snd (zBoolean path v))"
  by (cases v) (simp_all add: zBoolean_def)

lemma zNumber_issue: "(p, Message m) \<notin> set (snd (zNumber path v))"
  by (cases v) (simp_all add: zNumber_def)

lemma zEnum_issue: "(p, Message m) \<notin> set (snd (zEnum values path v))"
  by (cases v) (simp_all add: zEnum_def)

lemma zRefine_issue:
  "(p, Message m) \<in> set (snd (zRefine check m' path r)) \<Longrightarrow>
   (p, Message m) \<in> set (snd r) \<or> p = path \<and> m = m'"
  by (cases "fst r") (auto simp: zRefine_def split: if_splits)

lemma registerSchema_object_no_mismatch:
  "([''confirmPassword''], Message ''Passwords don't match'')
     \<notin> set (snd (registerSchema_object isEmail roleValue inp))"
proof
  assume "([''confirmPassword''], Message ''Passwords don't match'')
     \<in> set (snd (registerSchema_object isEmail roleValue inp))"
  then show False
    unfolding registerSchema_object_snd registerSchema_password_def createRoleEnum_def
      zDefault_def set_append Un_iff
    by (auto dest!: zString_issue zRefine_issue simp: zBoolean_issue zNumber_issue zEnum_issue)
qed

lemma registerSchema_object_aborts:
  "fst (registerSchema_object isEmail roleValue inp) = None \<longleftrightarrow>
   \<not> ((\<exists>e. in_email inp = JStr e) \<and> (\<exists>p. in_password inp = JStr p) \<and>
      (\<exists>c. in_confirmPassword inp = JStr c) \<and> (\<exists>f. in_firstName inp = JStr f) \<and>
      (\<exists>l. in_lastName inp = JStr l) \<and> (\<exists>ph. in_phone inp = JStr ph) \<and>
      in_gender inp \<in> {JUndefined, JStr ''MALE'', JStr ''FEMALE'', JStr ''OTHER''} \<and>
      (in_role inp = JUndefined \<or> (\<exists>r. in_role inp = JStr (roleValue r))) \<and>
      (in_age inp = JUndefined \<or> (\<exists>n. in_age inp = JNum n)) \<and>
      (\<exists>t. in_terms inp = JBool t))"
proof
  assume n: "fst (registerSchema_object isEmail roleValue inp) = None"
  show "\<not> ((\<exists>e. in_email inp = JStr e) \<and> (\<exists>p. in_password inp = JStr p) \<and>
      (\<exists>c. in_confirmPassword inp = JStr c) \<and> (\<exists>f. in_firstName inp = JStr f) \<and>
      (\<exists>l. in_lastName inp = JStr l) \<and> (\<exists>ph. in_phone inp = JStr ph) \<and>
      in_gender inp \<in> {JUndefined, JStr ''MALE'', JStr ''FEMALE'', JStr ''OTHER''} \<and>
      (in_role inp = JUndefined \<or> (\<exists>r. in_role inp = JStr (roleValue r))) \<and>
      (in_age inp = JUndefined \<or> (\<exists>n. in_age inp = JNum n)) \<and>
      (\<exists>t. in_terms inp = JBool t))"
  proof
    assume "(\<exists>e. in_email inp = JStr e) \<and> (\<exists>p. in_password inp = JStr p) \<and>
      (\<exists>c. in_confirmPassword inp = JStr c) \<and> (\<exists>f. in_firstName inp = JStr f) \<and>
      (\<exists>l. in_lastName inp = JStr l) \<and> (\<exists>ph. in_phone inp = JStr ph) \<and>
      in_gender inp \<in> {JUndefined, JStr ''MALE'', JStr ''FEMALE'', JStr ''OTHER''} \<and>
      (in_role inp = JUndefined \<or> (\<exists>r. in_role inp = JStr (roleValue r))) \<and>
      (in_age inp = JUndefined \<or> (\<exists>n. in_age inp = JNum n)) \<and>
      (\<exists>t. in_terms inp = JBool t)"
    then obtain e p c f l ph t where
      "in_email inp = JStr e" "in_password inp = JStr p" "in_confirmPassword inp = JStr c"
      "in_firstName inp = JStr f" "in_lastName inp = JStr l" "in_phone inp = JStr ph"
      "in_gender inp \<in> {JUndefined, JStr ''MALE'', JStr ''FEMALE'', JStr ''OTHER''}"
      "in_role inp = JUndefined \<or> (\<exists>r. in_role inp = JStr (roleValue r))"
      "in_age inp = JUndefined \<or> (\<exists>n. in_age inp = JNum n)"
      "in_terms inp = JBool t"
      by blast
    from registerSchema_object_typed [OF this, of isEmail] n show False by auto
  qed
next
  assume a: "\<not> ((\<exists>e. in_email inp = JStr e) \<and> (\<exists>p. in_password inp = JStr p) \<and>
      (\<exists>c. in_confirmPassword inp = JStr c) \<and> (\<exists>f. in_firstName inp = JStr f) \<and>
      (\<exists>l. in_lastName inp = JStr l) \<and> (\<exists>ph. in_phone inp = JStr ph) \<and>
      in_gender inp \<in> {JUndefined, JStr ''MALE'', JStr ''FEMALE'', JStr ''OTHER''} \<and>
      (in_role inp = JUndefined \<or> (\<exists>r. in_role inp = JStr (roleValue r))) \<and>
      (in_age inp = JUndefined \<or> (\<exists>n. in_age inp = JNum n)) \<and>
      (\<exists>t. in_terms inp = JBool t))"
  show "fst (registerSchema_object isEmail roleValue inp) = None"
  proof (rule ccontr)
    assume "fst (registerSchema_object isEmail roleValue inp) \<noteq> None"
    then obtain d where d: "fst (registerSchema_object isEmail roleValue inp) = Some d" by blast
    note f = registerSchema_object_fst [OF d]
    have "in_email inp = JStr (out_email d)" "in_confirmPassword inp = JStr (out_confirmPassword d)"
      "in_firstName inp = JStr (out_firstName d)" "in_lastName inp = JStr (out_lastName d)"
      "in_phone inp = JStr (out_phone d)"
      using f(1,3,4,5,6) by (auto dest: zString_Some)
    moreover have "in_password inp = JStr (out_password d)"
      using f(2) by (auto simp: registerSchema_password_def dest: zString_Some)
    moreover have "in_gender inp \<in> {JUndefined, JStr ''MALE'', JStr ''FEMALE'', JStr ''OTHER''}"
      using zDefault_zEnum [OF f(7)] by (cases "in_gender inp = JUndefined") auto
    moreover have "in_role inp = JUndefined \<or> (\<exists>r. in_role inp = JStr (roleValue r))"
    proof -
      have r: "fst (zDefault (JStr (roleValue PATIENT))
             (zEnum [roleValue SUPER_ADMIN, roleValue CLINIC_ADMIN, roleValue DOCTOR,
                     roleValue RECEPTIONIST, roleValue PATIENT] [''role'']) (in_role inp))
           = Some (out_role d)"
        using f(8) by (simp add: createRoleEnum_def)
      from zDefault_zEnum(1,3) [OF r] show ?thesis
        unfolding range_roleValue by (cases "in_role inp = JUndefined") auto
    qed
    moreover have "in_age inp = JUndefined \<or> (\<exists>n. in_age inp = JNum n)"
      using zDefault_zNumber [OF f(9)] by (cases "in_age inp = JUndefined") auto
    moreover have "in_terms inp = JBool (out_terms d)"
      using f(10) by (simp add: zRefine_Some zBoolean_Some)
    ultimately show False using a by blast
  qed
qed

lemma registerSchema_aborted:
  assumes "fst (registerSchema_object isEmail roleValue inp) = None"
  shows "safeParse (registerSchema isEmail roleValue inp) =
           Inl (snd (registerSchema_object isEmail roleValue inp))"
  using assms by (simp add: registerSchema_def safeParse_def zRefine_def)

lemma resetPasswordSchema_object_aborts:
  "fst (resetPasswordSchema_object inp) = None \<longleftrightarrow>
   \<not> ((\<exists>p. rin_password inp = JStr p) \<and> (\<exists>c. rin_confirmPassword inp = JStr c) \<and>
      (\<exists>t. rin_token inp = JStr t))"
  by (cases "rin_password inp"; cases "rin_confirmPassword inp"; cases "rin_token inp")
    (simp_all add: resetPasswordSchema_object_def Let_def zString_def)

lemma resetPasswordSchema_object_no_mismatch:
  "([''confirmPassword''], Message ''Passwords don't match'')
     \<notin> set (snd (resetPasswordSchema_object inp))"
  by (auto simp: resetPasswordSchema_object_def Let_def min_check_def dest!: zString_issue)

lemma resetPasswordSchema_aborted:
  assumes "fst (resetPasswordSchema_object inp) = None"
  shows "safeParse (resetPasswordSchema inp) = Inl (snd (resetPasswordSchema_object inp))"
  using assms by (simp add: resetPasswordSchema_def safeParse_def zRefine_def)

lemma changePasswordSchema_object_aborts:
  "fst (changePasswordSchema_object inp) = None \<longleftrightarrow>
   \<not> ((\<exists>cu. cin_currentPassword inp = JStr cu) \<and> (\<exists>p. cin_newPassword inp = JStr p) \<and>
      (\<exists>c. cin_confirmPassword inp = JStr c))"
  by (cases "cin_currentPassword inp"; cases "cin_newPassword inp"; cases "cin_confirmPassword inp")
    (simp_all add: changePasswordSchema_object_def changePasswordSchema_newPassword_def Let_def
      zString_def)

lemma changePasswordSchema_object_no_mismatch:
  "([''confirmPassword''], Message ''Passwords don't match'')
     \<notin> set (snd (changePasswordSchema_object inp))"
  by (auto simp: changePasswordSchema_object_def changePasswordSchema_newPassword_def Let_def
      min_check_def dest!: zString_issue)

lemma changePasswordSchema_aborted:
  assumes "fst (changePasswordSchema_object inp) = None"
  shows "safeParse (changePasswordSchema inp) = Inl (snd (changePasswordSchema_object inp))"
  using assms by (simp add: changePasswordSchema_def safeParse_def zRefine_def)


section \<open>Password confirmation\<close>

text \<open>
  Claim C8, as amended. When no field aborts parsing (every string field is a string,
  \<open>terms\<close> is a boolean, \<open>age\<close> is omitted or a finite number, \<open>gender\<close> and \<open>role\<close>
  are omitted or a member of their enumeration) and the password (the new password) differs
  from \<open>confirmPassword\<close>, the registration, reset-password and change-password schemas
  reject with the issues of the fields followed by the issue \<open>Passwords don't match\<close> at the
  path \<open>confirmPassword\<close>, whichever of the two fields is the wrong one. When a field aborts
  parsing, they reject with the issues of the fields only; the issues of the fields never
  include the mismatch issue, so the mismatch is then not reported. Whenever the two input
  fields differ, validation rejects.
\<close>

theorem password_mismatch:
  "(((\<exists>e. in_email inp = JStr e) \<and> (\<exists>p. in_password inp = JStr p) \<and>
      (\<exists>c. in_confirmPassword inp = JStr c) \<and> (\<exists>f. in_firstName inp = JStr f) \<and>
      (\<exists>l. in_lastName inp = JStr l) \<and> (\<exists>ph. in_phone inp = JStr ph) \<and>
      in_gender inp \<in> {JUndefined, JStr ''MALE'', JStr ''FEMALE'', JStr ''OTHER''} \<and>
      (in_role inp = JUndefined \<or> (\<exists>r. in_role inp = JStr (roleValue r))) \<and>
      (in_age inp = JUndefined \<or> (\<exists>n. in_age inp = JNum n)) \<and>
      (\<exists>t. in_terms inp = JBool t)) \<and>
    in_password inp \<noteq> in_confirmPassword inp \<longrightarrow>
      safeParse (registerSchema isEmail roleValue inp) =
        Inl (snd (registerSchema_object isEmail roleValue inp) @ [([''confirmPassword''], Message ''Passwords don't match'')])) \<and>
   (\<not> ((\<exists>e. in_email inp = JStr e) \<and> (\<exists>p. in_password inp = JStr p) \<and>
      (\<exists>c. in_confirmPassword inp = JStr c) \<and> (\<exists>f. in_firstName inp = JStr f) \<and>
      (\<exists>l. in_lastName inp = JStr l) \<and> (\<exists>ph. in_phone inp = JStr ph) \<and>
      in_gender inp \<in> {JUndefined, JStr ''MALE'', JStr ''FEMALE'', JStr ''OTHER''} \<and>
      (in_role inp = JUndefined \<or> (\<exists>r. in_role inp = JStr (roleValue r))) \<and>
      (in_age inp = JUndefined \<or> (\<exists>n. in_age inp = JNum n)) \<and>
      (\<exists>t. in_terms inp = JBool t)) \<longrightarrow>
      safeParse (registerSchema isEmail roleValue inp) =
        Inl (snd (registerSchema_object isEmail roleValue inp))) \<and>
   ([''confirmPassword''], Message ''Passwords don't match'') \<notin> set (snd (registerSchema_object isEmail roleValue inp)) \<and>
   (((\<exists>p. rin_password rinp = JStr p) \<and> (\<exists>c. rin_confirmPassword rinp = JStr c) \<and>
      (\<exists>t. rin_token rinp = JStr t)) \<and>
    rin_password rinp \<noteq> rin_confirmPassword rinp \<longrightarrow>
      safeParse (resetPasswordSchema rinp) =
        Inl (snd (resetPasswordSchema_object rinp) @ [([''confirmPassword''], Message ''Passwords don't match'')])) \<and>
   (\<not> ((\<exists>p. rin_password rinp = JStr p) \<and> (\<exists>c. rin_confirmPassword rinp = JStr c) \<and>
      (\<exists>t. rin_token rinp = JStr t)) \<longrightarrow>
      safeParse (resetPasswordSchema rinp) = Inl (snd (resetPasswordSchema_object rinp))) \<and>
   ([''confirmPassword''], Message ''Passwords don't match'') \<notin> set (snd (resetPasswordSchema_object rinp)) \<and>
   (((\<exists>cu. cin_currentPassword cinp = JStr cu) \<and> (\<exists>p. cin_newPassword cinp = JStr p) \<and>
      (\<exists>c. cin_confirmPassword cinp = JStr c)) \<and>
    cin_newPassword cinp \<noteq> cin_confirmPassword cinp \<longrightarrow>
      safeParse (changePasswordSchema cinp) =
        Inl (snd (changePasswordSchema_object cinp) @ [([''confirmPassword''], Message ''Passwords don't match'')])) \<and>
   (\<not> ((\<exists>cu. cin_currentPassword cinp = JStr cu) \<and> (\<exists>p. cin_newPassword cinp = JStr p) \<and>
      (\<exists>c. cin_confirmPassword cinp = JStr c)) \<longrightarrow>
      safeParse (changePasswordSchema cinp) = Inl (snd (changePasswordSchema_object cinp))) \<and>
   ([''confirmPassword''], Message ''Passwords don't match'') \<notin> set (snd (changePasswordSchema_object cinp)) \<and>
   (in_password inp \<noteq> in_confirmPassword inp \<longrightarrow>
      (\<exists>iss. safeParse (registerSchema isEmail roleValue inp) = Inl iss)) \<and>
   (rin_password rinp \<noteq> rin_confirmPassword rinp \<longrightarrow>
      (\<exists>iss. safeParse (resetPasswordSchema rinp) = Inl iss)) \<and>
   (cin_newPassword cinp \<noteq> cin_confirmPassword cinp \<longrightarrow>
      (\<exists>iss. safeParse (changePasswordSchema cinp) = Inl iss))"
proof -
  have r1: "safeParse (registerSchema isEmail roleValue inp) =
        Inl (snd (registerSchema_object isEmail roleValue inp) @ [([''confirmPassword''], Message ''Passwords don't match'')])"
    if "((\<exists>e. in_email inp = JStr e) \<and> (\<exists>p. in_password inp = JStr p) \<and>
      (\<exists>c. in_confirmPassword inp = JStr c) \<and> (\<exists>f. in_firstName inp = JStr f) \<and>
      (\<exists>l. in_lastName inp = JStr l) \<and> (\<exists>ph. in_phone inp = JStr ph) \<and>
      in_gender inp \<in> {JUndefined, JStr ''MALE'', JStr ''FEMALE'', JStr ''OTHER''} \<and>
      (in_role inp = JUndefined \<or> (\<exists>r. in_role inp = JStr (roleValue r))) \<and>
      (in_age inp = JUndefined \<or> (\<exists>n. in_age inp = JNum n)) \<and>
      (\<exists>t. in_terms inp = JBool t))"
      and "in_password inp \<noteq> in_confirmPassword inp"
  proof -
    from that(1) obtain e p c f l ph t where h:
      "in_email inp = JStr e" "in_password inp = JStr p" "in_confirmPassword inp = JStr c"
      "in_firstName inp = JStr f" "in_lastName inp = JStr l" "in_phone inp = JStr ph"
      "in_gender inp \<in> {JUndefined, JStr ''MALE'', JStr ''FEMALE'', JStr ''OTHER''}"
      "in_role inp = JUndefined \<or> (\<exists>r. in_role inp = JStr (roleValue r))"
      "in_age inp = JUndefined \<or> (\<exists>n. in_age inp = JNum n)"
      "in_terms inp = JBool t"
      by blast
    from that(2) h(2,3) have "p \<noteq> c" by auto
    from registerSchema_mismatch [OF h this] show ?thesis .
  qed
  have r2: "safeParse (resetPasswordSchema rinp) =
        Inl (snd (resetPasswordSchema_object rinp) @ [([''confirmPassword''], Message ''Passwords don't match'')])"
    if "((\<exists>p. rin_password rinp = JStr p) \<and> (\<exists>c. rin_confirmPassword rinp = JStr c) \<and>
      (\<exists>t. rin_token rinp = JStr t))"
      and "rin_password rinp \<noteq> rin_confirmPassword rinp"
  proof -
    from that(1) obtain p c t where h:
      "rin_password rinp = JStr p" "rin_confirmPassword rinp = JStr c" "rin_token rinp = JStr t"
      by blast
    from that(2) h(1,2) have "p \<noteq> c" by auto
    from resetPasswordSchema_mismatch [OF h this] show ?thesis .
  qed
  have r3: "safeParse (changePasswordSchema cinp) =
        Inl (snd (changePasswordSchema_object cinp) @ [([''confirmPassword''], Message ''Passwords don't match'')])"
    if "((\<exists>cu. cin_currentPassword cinp = JStr cu) \<and> (\<exists>p. cin_newPassword cinp = JStr p) \<and>
      (\<exists>c. cin_confirmPassword cinp = JStr c))"
      and "cin_newPassword cinp \<noteq> cin_confirmPassword cinp"
  proof -
    from that(1) obtain cu p c where h:
      "cin_currentPassword cinp = JStr cu" "cin_newPassword cinp = JStr p"
      "cin_confirmPassword cinp = JStr c"
      by blast
    from that(2) h(2,3) have "p \<noteq> c" by auto
    from changePasswordSchema_mismatch [OF h this] show ?thesis .
  qed
  note a1 = registerSchema_aborted [of isEmail roleValue inp,
      unfolded registerSchema_object_aborts [of isEmail roleValue inp]]
  note a2 = resetPasswordSchema_aborted [of rinp, unfolded resetPasswordSchema_object_aborts [of rinp]]
  note a3 = changePasswordSchema_aborted [of cinp,
      unfolded changePasswordSchema_object_aborts [of cinp]]
  show ?thesis
    apply (intro conjI impI)
               apply (erule conjE, erule (1) r1)
              apply (erule a1)
             apply (rule registerSchema_object_no_mismatch)
            apply (erule conjE, erule (1) r2)
           apply (erule a2)
          apply (rule resetPasswordSchema_object_no_mismatch)
         apply (erule conjE, erule (1) r3)
        apply (erule a3)
       apply (rule changePasswordSchema_object_no_mismatch)
      apply (erule registerSchema_rejects_mismatch)
     apply (erule resetPasswordSchema_rejects_mismatch)
    apply (erule changePasswordSchema_rejects_mismatch)
    done
qed

lemma exampleRegistration_issues:
  "snd (registerSchema_object exampleIsEmail exampleRoleValue
          (exampleRegistration\<lparr>in_password := JStr ''abcdefgh''\<rparr>)) =
     [([''password''], Message ''Password must contain at least one uppercase letter''),
      ([''password''], Message ''Password must contain at least one number''),
      ([''password''], Message ''Password must contain at least one special character'')]"
  by (simp add: registerSchema_object_snd exampleRegistration_def exampleIsEmail_def
      registerSchema_password_def zString_JStr min_check_def re_upper_def re_lower_def
      re_digit_def re_special_def in_range_def zDefault_def zEnum_def createRoleEnum_def
      zNumber_def zRefine_def zBoolean_def)


lemma exampleRegistration_NaN_issues:
  "snd (registerSchema_object exampleIsEmail exampleRoleValue
          (exampleRegistration\<lparr>in_confirmPassword := JStr ''Abcdef1?'', in_age := JNaN\<rparr>)) =
     [([''age''], LibraryDefault)]"
  by (simp add: registerSchema_object_snd exampleRegistration_def exampleIsEmail_def
      registerSchema_password_def zString_JStr min_check_def re_upper_def re_lower_def
      re_digit_def re_special_def in_range_def zDefault_def zEnum_def createRoleEnum_def
      zNumber_def zRefine_def zBoolean_def)

theorem password_mismatch_witness:
  "safeParse (registerSchema exampleIsEmail exampleRoleValue
       (exampleRegistration\<lparr>in_password := JStr ''abcdefgh''\<rparr>)) =
     Inl [([''password''], Message ''Password must contain at least one uppercase letter''),
          ([''password''], Message ''Password must contain at least one number''),
          ([''password''], Message ''Password must contain at least one special character''),
          ([''confirmPassword''], Message ''Passwords don't match'')] \<and>
   safeParse (registerSchema exampleIsEmail exampleRoleValue
       (exampleRegistration\<lparr>in_confirmPassword := JStr ''Abcdef1?'', in_age := JNaN\<rparr>)) =
     Inl [([''age''], LibraryDefault)] \<and>
   safeParse (resetPasswordSchema (exampleReset\<lparr>rin_confirmPassword := JStr ''Abcdef1?''\<rparr>)) =
     Inl [([''confirmPassword''], Message ''Passwords don't match'')] \<and>
   safeParse (resetPasswordSchema (exampleReset\<lparr>rin_confirmPassword := JUndefined\<rparr>)) =
     Inl [([''confirmPassword''], LibraryDefault)] \<and>
   safeParse (changePasswordSchema (exampleChange\<lparr>cin_confirmPassword := JStr []\<rparr>)) =
     Inl [([''confirmPassword''], Message ''Passwords don't match'')] \<and>
   safeParse (changePasswordSchema (exampleChange\<lparr>cin_confirmPassword := JNull\<rparr>)) =
     Inl [([''confirmPassword''], LibraryDefault)]"
proof -
  let ?inp = "exampleRegistration\<lparr>in_password := JStr ''abcdefgh''\<rparr>"
  let ?nan = "exampleRegistration\<lparr>in_confirmPassword := JStr ''Abcdef1?'', in_age := JNaN\<rparr>"
  let ?rinp = "exampleReset\<lparr>rin_confirmPassword := JStr ''Abcdef1?''\<rparr>"
  let ?rab = "exampleReset\<lparr>rin_confirmPassword := JUndefined\<rparr>"
  let ?cinp = "exampleChange\<lparr>cin_confirmPassword := JStr []\<rparr>"
  let ?cab = "exampleChange\<lparr>cin_confirmPassword := JNull\<rparr>"
  have r: "snd (resetPasswordSchema_object ?rinp) = []"
    "snd (resetPasswordSchema_object ?rab) = [([''confirmPassword''], LibraryDefault)]"
    by (simp_all add: resetPasswordSchema_object_def exampleReset_def zString_def min_check_def
        Let_def)
  have c: "snd (changePasswordSchema_object ?cinp) = []"
    "snd (changePasswordSchema_object ?cab) = [([''confirmPassword''], LibraryDefault)]"
    by (simp_all add: changePasswordSchema_object_def changePasswordSchema_newPassword_def
        exampleChange_def zString_def min_check_def re_upper_def re_lower_def re_digit_def
        re_special_def in_range_def Let_def)
  have p1: "((\<exists>e. in_email ?inp = JStr e) \<and> (\<exists>p. in_password ?inp = JStr p) \<and>
      (\<exists>c. in_confirmPassword ?inp = JStr c) \<and> (\<exists>f. in_firstName ?inp = JStr f) \<and>
      (\<exists>l. in_lastName ?inp = JStr l) \<and> (\<exists>ph. in_phone ?inp = JStr ph) \<and>
      in_gender ?inp \<in> {JUndefined, JStr ''MALE'', JStr ''FEMALE'', JStr ''OTHER''} \<and>
      (in_role ?inp = JUndefined \<or> (\<exists>r. in_role ?inp = JStr (exampleRoleValue r))) \<and>
      (in_age ?inp = JUndefined \<or> (\<exists>n. in_age ?inp = JNum n)) \<and>
      (\<exists>t. in_terms ?inp = JBool t)) \<and> in_password ?inp \<noteq> in_confirmPassword ?inp"
    by (auto simp: exampleRegistration_def)
  have p2: "((\<exists>p. rin_password ?rinp = JStr p) \<and> (\<exists>c. rin_confirmPassword ?rinp = JStr c) \<and>
      (\<exists>t. rin_token ?rinp = JStr t)) \<and> rin_password ?rinp \<noteq> rin_confirmPassword ?rinp"
    by (simp add: exampleReset_def)
  have p3: "((\<exists>cu. cin_currentPassword ?cinp = JStr cu) \<and> (\<exists>p. cin_newPassword ?cinp = JStr p) \<and>
      (\<exists>c. cin_confirmPassword ?cinp = JStr c)) \<and> cin_newPassword ?cinp \<noteq> cin_confirmPassword ?cinp"
    by (simp add: exampleChange_def)
  have n1: "\<not> ((\<exists>e. in_email ?nan = JStr e) \<and> (\<exists>p. in_password ?nan = JStr p) \<and>
      (\<exists>c. in_confirmPassword ?nan = JStr c) \<and> (\<exists>f. in_firstName ?nan = JStr f) \<and>
      (\<exists>l. in_lastName ?nan = JStr l) \<and> (\<exists>ph. in_phone ?nan = JStr ph) \<and>
      in_gender ?nan \<in> {JUndefined, JStr ''MALE'', JStr ''FEMALE'', JStr ''OTHER''} \<and>
      (in_role ?nan = JUndefined \<or> (\<exists>r. in_role ?nan = JStr (exampleRoleValue r))) \<and>
      (in_age ?nan = JUndefined \<or> (\<exists>n. in_age ?nan = JNum n)) \<and>
      (\<exists>t. in_terms ?nan = JBool t))"
    by simp
  have n2: "\<not> ((\<exists>p. rin_password ?rab = JStr p) \<and> (\<exists>c. rin_confirmPassword ?rab = JStr c) \<and>
      (\<exists>t. rin_token ?rab = JStr t))"
    by simp
  have n3: "\<not> ((\<exists>cu. cin_currentPassword ?cab = JStr cu) \<and> (\<exists>p. cin_newPassword ?cab = JStr p) \<and>
      (\<exists>c. cin_confirmPassword ?cab = JStr c))"
    by simp
  note a = password_mismatch [of ?inp exampleRoleValue exampleIsEmail ?rinp ?cinp]
  note b = password_mismatch [of ?nan exampleRoleValue exampleIsEmail ?rab ?cab]
  from a p1 have 1: "safeParse (registerSchema exampleIsEmail exampleRoleValue ?inp) =
      Inl (snd (registerSchema_object exampleIsEmail exampleRoleValue ?inp)
           @ [([''confirmPassword''], Message ''Passwords don't match'')])" by blast
  from a p2 have 2: "safeParse (resetPasswordSchema ?rinp) =
      Inl (snd (resetPasswordSchema_object ?rinp)
           @ [([''confirmPassword''], Message ''Passwords don't match'')])" by blast
  from a p3 have 3: "safeParse (changePasswordSchema ?cinp) =
      Inl (snd (changePasswordSchema_object ?cinp)
           @ [([''confirmPassword''], Message ''Passwords don't match'')])" by blast
  from b n1 have 4: "safeParse (registerSchema exampleIsEmail exampleRoleValue ?nan) =
      Inl (snd (registerSchema_object exampleIsEmail exampleRoleValue ?nan))" by blast
  from b n2 have 5: "safeParse (resetPasswordSchema ?rab) =
      Inl (snd (resetPasswordSchema_object ?rab))" by blast
  from b n3 have 6: "safeParse (changePasswordSchema ?cab) =
      Inl (snd (changePasswordSchema_object ?cab))" by blast
  show ?thesis
    unfolding 1 2 3 4 5 6 exampleRegistration_issues exampleRegistration_NaN_issues r c by simp
qed

text \<open>
  Claim C8 as stated fails when a field aborts parsing: the refinement of the object does
  not run, and the schema rejects with the issue of that field only. Here the passwords
  differ, and the role is outside the enumeration (registration), or the token is missing
  (reset-password).
\<close>

theorem password_mismatch_unreported_counterexample:
  "safeParse (registerSchema exampleIsEmail exampleRoleValue
       (exampleRegistration\<lparr>in_confirmPassword := JStr ''Abcdef1?'', in_role := JStr ''HACKER''\<rparr>))
     = Inl [([''role''], LibraryDefault)] \<and>
   safeParse (resetPasswordSchema
       (exampleReset\<lparr>rin_confirmPassword := JStr ''Abcdef1?'', rin_token := JUndefined\<rparr>))
     = Inl [([''token''], LibraryDefault)]"
proof -
  have "fst (registerSchema_object exampleIsEmail exampleRoleValue
       (exampleRegistration\<lparr>in_confirmPassword := JStr ''Abcdef1?'', in_role := JStr ''HACKER''\<rparr>))
      = None"
    by (simp add: registerSchema_object_def Let_def exampleRegistration_def zDefault_def
        createRoleEnum_def zEnum_def)
  moreover have "snd (registerSchema_object exampleIsEmail exampleRoleValue
       (exampleRegistration\<lparr>in_confirmPassword := JStr ''Abcdef1?'', in_role := JStr ''HACKER''\<rparr>))
      = [([''role''], LibraryDefault)]"
    by (simp add: registerSchema_object_snd exampleRegistration_def exampleIsEmail_def
      registerSchema_password_def zString_JStr min_check_def re_upper_def re_lower_def
      re_digit_def re_special_def in_range_def zDefault_def zEnum_def createRoleEnum_def
      zNumber_def zRefine_def zBoolean_def)
  ultimately have "safeParse (registerSchema exampleIsEmail exampleRoleValue
       (exampleRegistration\<lparr>in_confirmPassword := JStr ''Abcdef1?'', in_role := JStr ''HACKER''\<rparr>))
     = Inl [([''role''], LibraryDefault)]"
    by (simp add: registerSchema_def safeParse_def zRefine_def)
  moreover have "safeParse (resetPasswordSchema
       (exampleReset\<lparr>rin_confirmPassword := JStr ''Abcdef1?'', rin_token := JUndefined\<rparr>))
     = Inl [([''token''], LibraryDefault)]"
    by (simp add: resetPasswordSchema_def resetPasswordSchema_object_def safeParse_def zRefine_def
        exampleReset_def zString_def min_check_def Let_def)
  ultimately show ?thesis by blast
qed


section \<open>The rules of the registration schema\<close>

lemma registerSchema_accepts:
  assumes "in_email inp = JStr (out_email d)" "isEmail (out_email d)"
    and "in_password inp = JStr (out_password d)" "8 \<le> length (out_password d)"
    and "re_upper (out_password d)" "re_lower (out_password d)" "re_digit (out_password d)"
    and "re_special (out_password d)"
    and "in_confirmPassword inp = JStr (out_confirmPassword d)"
    and "out_confirmPassword d = out_password d"
    and "in_firstName inp = JStr (out_firstName d)" "2 \<le> length (out_firstName d)"
    and "in_lastName inp = JStr (out_lastName d)" "2 \<le> length (out_lastName d)"
    and "in_phone inp = JStr (out_phone d)" "10 \<le> length (out_phone d)"
    and g: "in_gender inp = JUndefined \<and> out_gender d = ''MALE'' \<or>
       in_gender inp = JStr (out_gender d) \<and> out_gender d \<in> {''MALE'', ''FEMALE'', ''OTHER''}"
    and r: "in_role inp = JUndefined \<and> out_role d = roleValue PATIENT \<or>
       in_role inp = JStr (out_role d) \<and> out_role d \<in> range roleValue"
    and a: "in_age inp = JUndefined \<and> out_age d = 18 \<or> in_age inp = JNum (out_age d)"
    and "in_terms inp = JBool True" "out_terms d"
  shows "safeParse (registerSchema isEmail roleValue inp) = Inr d"
proof -
  have ge: "zDefault (JStr ''MALE'') (zEnum [''MALE'', ''FEMALE'', ''OTHER''] [''gender''])
              (in_gender inp) = (Some (out_gender d), [])"
    using g by (auto simp: zDefault_def zEnum_def)
  have ro: "zDefault (JStr (roleValue PATIENT)) (createRoleEnum roleValue [''role''])
              (in_role inp) = (Some (out_role d), [])"
    using r unfolding range_roleValue [symmetric] createRoleEnum_def
    by (auto simp: zDefault_def zEnum_def)
  have ag: "zDefault (JNum 18) (zNumber [''age'']) (in_age inp) = (Some (out_age d), [])"
    using a by (auto simp: zDefault_def zNumber_def)
  have pw: "registerSchema_password (in_password inp) = (Some (out_password d), [])"
    using assms(3-8) by (simp add: registerSchema_password_def zString_JStr min_check_def)
  have "registerSchema_object isEmail roleValue inp =
      (Some \<lparr>out_email = out_email d, out_password = out_password d,
             out_confirmPassword = out_confirmPassword d, out_firstName = out_firstName d,
             out_lastName = out_lastName d, out_phone = out_phone d, out_gender = out_gender d,
             out_role = out_role d, out_age = out_age d, out_terms = out_terms d\<rparr>, [])"
    using assms(1,2,9,11-16,20,21)
    by (simp add: registerSchema_object_def Let_def ge ro ag pw zString_JStr min_check_def
        zRefine_def zBoolean_def)
  then have "registerSchema_object isEmail roleValue inp = (Some d, [])" by simp
  with assms(10) show ?thesis
    by (simp add: registerSchema_def zRefine_def safeParse_def)
qed

lemma registerSchema_accepted_fields:
  assumes acc: "safeParse (registerSchema isEmail roleValue inp) = Inr d"
  shows "in_email inp = JStr (out_email d)" "isEmail (out_email d)"
    and "in_password inp = JStr (out_password d)" "8 \<le> length (out_password d)"
    and "re_upper (out_password d)" "re_lower (out_password d)" "re_digit (out_password d)"
    and "re_special (out_password d)"
    and "in_confirmPassword inp = JStr (out_confirmPassword d)"
    and "out_confirmPassword d = out_password d"
    and "in_firstName inp = JStr (out_firstName d)" "2 \<le> length (out_firstName d)"
    and "in_lastName inp = JStr (out_lastName d)" "2 \<le> length (out_lastName d)"
    and "in_phone inp = JStr (out_phone d)" "10 \<le> length (out_phone d)"
    and "in_gender inp = JUndefined \<and> out_gender d = ''MALE'' \<or>
       in_gender inp = JStr (out_gender d) \<and> out_gender d \<in> {''MALE'', ''FEMALE'', ''OTHER''}"
    and "in_role inp = JUndefined \<and> out_role d = roleValue PATIENT \<or>
       in_role inp = JStr (out_role d) \<and> out_role d \<in> range roleValue"
    and "in_age inp = JUndefined \<and> out_age d = 18 \<or> in_age inp = JNum (out_age d)"
    and "in_terms inp = JBool True" "out_terms d"
proof -
  note f = registerSchema_object_fst [OF registerSchema_accepted(1) [OF acc]]
  have s: "snd (registerSchema_object isEmail roleValue inp) = []"
    by (rule registerSchema_accepted(2) [OF acc])
  note s' = s [unfolded registerSchema_object_snd append_is_Nil_conv]
  from acc have "snd (registerSchema isEmail roleValue inp) = []"
    by (simp add: safeParse_Inr)
  with registerSchema_accepted(1) [OF acc] show "out_confirmPassword d = out_password d"
    by (simp add: registerSchema_def zRefine_def split: if_splits)
  have "zString [(isEmail, ''Please enter a valid email address'')] [''email''] (in_email inp)
      = (Some (out_email d), [])"
    using f(1) s' by (simp add: prod_eq_iff)
  then show "in_email inp = JStr (out_email d)" "isEmail (out_email d)"
    by (cases "in_email inp"; simp add: zString_def split: if_splits)+
  have "registerSchema_password (in_password inp) = (Some (out_password d), [])"
    using f(2) s' by (simp add: prod_eq_iff)
  then show "in_password inp = JStr (out_password d)" "8 \<le> length (out_password d)"
    "re_upper (out_password d)" "re_lower (out_password d)" "re_digit (out_password d)"
    "re_special (out_password d)"
    by (cases "in_password inp";
        simp add: registerSchema_password_def zString_def min_check_def split: if_splits)+
  show "in_confirmPassword inp = JStr (out_confirmPassword d)"
    using f(3) by (rule zString_Some)
  have "zString [min_check 2 ''First name must be at least 2 characters'']
                        [''firstName''] (in_firstName inp) = (Some (out_firstName d), [])"
    using f(4) s' by (simp add: prod_eq_iff)
  from zString_min [OF this]
  show "in_firstName inp = JStr (out_firstName d)" "2 \<le> length (out_firstName d)" by simp_all
  have "zString [min_check 2 ''Last name must be at least 2 characters'']
                       [''lastName''] (in_lastName inp) = (Some (out_lastName d), [])"
    using f(5) s' by (simp add: prod_eq_iff)
  from zString_min [OF this]
  show "in_lastName inp = JStr (out_lastName d)" "2 \<le> length (out_lastName d)" by simp_all
  have "zString [min_check 10 ''Phone number must be at least 10 characters'']
                    [''phone''] (in_phone inp) = (Some (out_phone d), [])"
    using f(6) s' by (simp add: prod_eq_iff)
  from zString_min [OF this]
  show "in_phone inp = JStr (out_phone d)" "10 \<le> length (out_phone d)" by simp_all
  show "in_gender inp = JUndefined \<and> out_gender d = ''MALE'' \<or>
       in_gender inp = JStr (out_gender d) \<and> out_gender d \<in> {''MALE'', ''FEMALE'', ''OTHER''}"
    using zDefault_zEnum [OF f(7)] by (cases "in_gender inp = JUndefined") auto
  have r: "fst (zDefault (JStr (roleValue PATIENT))
             (zEnum [roleValue SUPER_ADMIN, roleValue CLINIC_ADMIN, roleValue DOCTOR,
                     roleValue RECEPTIONIST, roleValue PATIENT] [''role'']) (in_role inp))
           = Some (out_role d)"
    using f(8) by (simp add: createRoleEnum_def)
  show "in_role inp = JUndefined \<and> out_role d = roleValue PATIENT \<or>
       in_role inp = JStr (out_role d) \<and> out_role d \<in> range roleValue"
    using zDefault_zEnum [OF r] unfolding range_roleValue
    by (cases "in_role inp = JUndefined") auto
  show "in_age inp = JUndefined \<and> out_age d = 18 \<or> in_age inp = JNum (out_age d)"
    using zDefault_zNumber [OF f(9)] by (cases "in_age inp = JUndefined") auto
  have t: "in_terms inp = JBool (out_terms d)"
    using f(10) by (simp add: zRefine_Some zBoolean_Some)
  from s' have "snd (zRefine (\<lambda>val. val = True) ''You must accept the terms and conditions''
                    [''terms''] (zBoolean [''terms''] (in_terms inp))) = []" by simp
  with t show "out_terms d" by (simp add: zRefine_def zBoolean_def split: if_splits)
  with t show "in_terms inp = JBool True" by simp
qed

text \<open>
  Claim C9. \<^verbatim>\<open>registerSchema\<close> rejects every input whose \<open>terms\<close> is not the boolean
  \<open>true\<close>. It accepts an input, with a given result, exactly when: the e-mail is a string
  of the e-mail grammar; the password is a strong password and \<open>confirmPassword\<close> is the
  same string; the first and the last name are strings of at least 2 characters and the
  phone is a string of at least 10 characters; \<open>gender\<close> is omitted, and the result has
  \<open>MALE\<close>, or is \<open>MALE\<close>, \<open>FEMALE\<close> or \<open>OTHER\<close>; \<open>role\<close> is omitted, and the result
  has \<open>PATIENT\<close>, or is a value of the \<open>Role\<close> enumeration; \<open>age\<close> is omitted, and the
  result has 18, or is a finite number; \<open>terms\<close> is \<open>true\<close>; and the result holds the
  strings and values of the input otherwise.
\<close>

theorem registerSchema_rules:
  "(safeParse (registerSchema isEmail roleValue inp) = Inr d \<longleftrightarrow>
      in_email inp = JStr (out_email d) \<and> isEmail (out_email d) \<and>
      in_password inp = JStr (out_password d) \<and> 8 \<le> length (out_password d) \<and>
      re_upper (out_password d) \<and> re_lower (out_password d) \<and> re_digit (out_password d) \<and>
      re_special (out_password d) \<and>
      in_confirmPassword inp = JStr (out_confirmPassword d) \<and>
      out_confirmPassword d = out_password d \<and>
      in_firstName inp = JStr (out_firstName d) \<and> 2 \<le> length (out_firstName d) \<and>
      in_lastName inp = JStr (out_lastName d) \<and> 2 \<le> length (out_lastName d) \<and>
      in_phone inp = JStr (out_phone d) \<and> 10 \<le> length (out_phone d) \<and>
      (in_gender inp = JUndefined \<and> out_gender d = ''MALE'' \<or>
       in_gender inp = JStr (out_gender d) \<and> out_gender d \<in> {''MALE'', ''FEMALE'', ''OTHER''}) \<and>
      (in_role inp = JUndefined \<and> out_role d = roleValue PATIENT \<or>
       in_role inp = JStr (out_role d) \<and> out_role d \<in> range roleValue) \<and>
      (in_age inp = JUndefined \<and> out_age d = 18 \<or> in_age inp = JNum (out_age d)) \<and>
      in_terms inp = JBool True \<and> out_terms d) \<and>
   (in_terms inp \<noteq> JBool True \<longrightarrow>
      (\<exists>iss. safeParse (registerSchema isEmail roleValue inp) = Inl iss))"
proof (intro conjI iffI impI)
  assume "in_terms inp \<noteq> JBool True"
  then show "\<exists>iss. safeParse (registerSchema isEmail roleValue inp) = Inl iss"
    by (rule terms_rejected)
next
  assume "in_email inp = JStr (out_email d) \<and> isEmail (out_email d) \<and>
      in_password inp = JStr (out_password d) \<and> 8 \<le> length (out_password d) \<and>
      re_upper (out_password d) \<and> re_lower (out_password d) \<and> re_digit (out_password d) \<and>
      re_special (out_password d) \<and>
      in_confirmPassword inp = JStr (out_confirmPassword d) \<and>
      out_confirmPassword d = out_password d \<and>
      in_firstName inp = JStr (out_firstName d) \<and> 2 \<le> length (out_firstName d) \<and>
      in_lastName inp = JStr (out_lastName d) \<and> 2 \<le> length (out_lastName d) \<and>
      in_phone inp = JStr (out_phone d) \<and> 10 \<le> length (out_phone d) \<and>
      (in_gender inp = JUndefined \<and> out_gender d = ''MALE'' \<or>
       in_gender inp = JStr (out_gender d) \<and> out_gender d \<in> {''MALE'', ''FEMALE'', ''OTHER''}) \<and>
      (in_role inp = JUndefined \<and> out_role d = roleValue PATIENT \<or>
       in_role inp = JStr (out_role d) \<and> out_role d \<in> range roleValue) \<and>
      (in_age inp = JUndefined \<and> out_age d = 18 \<or> in_age inp = JNum (out_age d)) \<and>
      in_terms inp = JBool True \<and> out_terms d"
  then show "safeParse (registerSchema isEmail roleValue inp) = Inr d"
    by (elim conjE) (rule registerSchema_accepts)
qed (erule registerSchema_accepted_fields)+

theorem registerSchema_rules_witness:
  "safeParse (registerSchema exampleIsEmail exampleRoleValue exampleRegistration) =
     Inr \<lparr>out_email = ''a@b.com'', out_password = ''Abcdef1!'', out_confirmPassword = ''Abcdef1!'',
          out_firstName = ''Jo'', out_lastName = ''Doe'', out_phone = ''0123456789'',
          out_gender = ''MALE'', out_role = ''PATIENT'', out_age = 18, out_terms = True\<rparr> \<and>
   in_role exampleRegistration = JUndefined \<and> in_gender exampleRegistration = JUndefined \<and>
   in_age exampleRegistration = JUndefined \<and>
   (\<exists>iss. safeParse (registerSchema exampleIsEmail exampleRoleValue
             (exampleRegistration\<lparr>in_terms := JBool False\<rparr>)) = Inl iss)"
proof -
  let ?d = "\<lparr>out_email = ''a@b.com'', out_password = ''Abcdef1!'', out_confirmPassword = ''Abcdef1!'',
          out_firstName = ''Jo'', out_lastName = ''Doe'', out_phone = ''0123456789'',
          out_gender = ''MALE'', out_role = ''PATIENT'', out_age = 18, out_terms = True\<rparr>"
  have "in_terms (exampleRegistration\<lparr>in_terms := JBool False\<rparr>) \<noteq> JBool True" by simp
  with registerSchema_rules [of exampleIsEmail exampleRoleValue
      "exampleRegistration\<lparr>in_terms := JBool False\<rparr>" ?d]
  have 1: "\<exists>iss. safeParse (registerSchema exampleIsEmail exampleRoleValue
             (exampleRegistration\<lparr>in_terms := JBool False\<rparr>)) = Inl iss" by blast
  have 2: "safeParse (registerSchema exampleIsEmail exampleRoleValue exampleRegistration) = Inr ?d"
    using registerSchema_rules [of exampleIsEmail exampleRoleValue exampleRegistration ?d]
    by (simp add: exampleRegistration_def exampleIsEmail_def re_upper_def re_lower_def
        re_digit_def re_special_def in_range_def)
  from 1 2 show ?thesis by (simp add: exampleRegistration_def)
qed

end
